theory Spec2Isabelle
  imports Main
begin

section \<open>A vocabulary quiz bot: word selection, exposure counters and the rating view\<close>

text \<open>
  The development embeds the classes \<open>GameUtils\<close> and \<open>DatabaseUtils\<close> of
  \<open>utils.py\<close> and the keyboards of \<open>buttons.py\<close>.

  \<^item> Python \<open>str\<close> values are kept as \<open>string\<close>, holding the UTF-8 bytes of the text;
    the Cyrillic literals and the emoji of the source are spelled out byte by byte.
  \<^item> A Python \<open>dict\<close> is an association list in insertion order, because
    \<open>word_generator\<close> reads its dictionary by position.
  \<^item> The three tables created by \<open>add_tabl\<close>, the CSV file, the random generator, the
    messages sent and the registered next-step handlers form one explicit state.
  \<^item> An exception is a value \<open>Inl e\<close>; a computation that never returns is \<open>None\<close>
    for every amount of fuel.
  \<^item> Calls of \<open>logger\<close> write to a log only and are left out.
  \<^item> Names that start with an underscore in the source lose it here
    (\<open>_get_medal\<close> is \<open>get_medal\<close>).
\<close>

subsection \<open>Python values\<close>

datatype error = IndexError | ValueError | FileNotFoundError

text \<open>\<open>str(n)\<close> for an integer, as the f-strings of the source print it.\<close>

definition digit_char :: "nat \<Rightarrow> char" where
  "digit_char d = ''0123456789'' ! d"

fun str_nat :: "nat \<Rightarrow> string" where
  "str_nat n =
     (if n < 10 then [digit_char n]
      else str_nat (n div 10) @ [digit_char (n mod 10)])"

declare str_nat.simps [simp del]

definition str_int :: "int \<Rightarrow> string" where
  "str_int i = (if i < 0 then ''-'' @ str_nat (nat (- i)) else str_nat (nat i))"

text \<open>
  \<open>d[k] = v\<close>: an existing key keeps its position and takes the new value, a new
  key goes to the end. \<open>d.update(e)\<close> stores the items of \<open>e\<close> one by one, in
  the order of \<open>e\<close>.
\<close>

type_synonym ('k, 'v) dict = "('k \<times> 'v) list"

fun dict_setitem :: "('k, 'v) dict \<Rightarrow> 'k \<Rightarrow> 'v \<Rightarrow> ('k, 'v) dict" where
  "dict_setitem [] k v = [(k, v)]"
| "dict_setitem ((k', v') # d) k v =
     (if k' = k then (k', v) # d else (k', v') # dict_setitem d k v)"

definition dict_update :: "('k, 'v) dict \<Rightarrow> ('k, 'v) dict \<Rightarrow> ('k, 'v) dict" where
  "dict_update d e = fold (\<lambda>(k, v) acc. dict_setitem acc k v) e d"

definition dict_get :: "('k, 'v) dict \<Rightarrow> 'k \<Rightarrow> 'v option" where
  "dict_get d k = map_of d k"

text \<open>
  The module \<open>random\<close>. The generator is a list of natural numbers that is used up
  from the left (an exhausted generator answers 0), so every outcome of a random call
  is the outcome for some generator. \<open>sample\<close> draws \<open>k\<close> positions without
  replacement; \<open>random.sample\<close> raises \<open>ValueError\<close> when the population is
  smaller than \<open>k\<close>; \<open>random.shuffle\<close> is a sample of the whole list.
\<close>

definition draw :: "nat list \<Rightarrow> nat \<times> nat list" where
  "draw rs = (case rs of [] \<Rightarrow> (0, []) | r # rs' \<Rightarrow> (r, rs'))"

fun sample :: "nat list \<Rightarrow> 'a list \<Rightarrow> nat \<Rightarrow> 'a list \<times> nat list" where
  "sample rs pop 0 = ([], rs)"
| "sample rs [] (Suc k) = ([], rs)"
| "sample rs (p # ps) (Suc k) =
     (let i = fst (draw rs) mod length (p # ps);
          rest = sample (snd (draw rs)) (take i (p # ps) @ drop (Suc i) (p # ps)) k
      in ((p # ps) ! i # fst rest, snd rest))"

definition random_sample :: "nat list \<Rightarrow> 'a list \<Rightarrow> nat \<Rightarrow> (error + 'a list) \<times> nat list" where
  "random_sample rs pop k =
     (if length pop < k then (Inl ValueError, rs)
      else (Inr (fst (sample rs pop k)), snd (sample rs pop k)))"

definition random_shuffle :: "nat list \<Rightarrow> 'a list \<Rightarrow> 'a list \<times> nat list" where
  "random_shuffle rs xs = sample rs xs (length xs)"

definition random_randint_0_2 :: "nat list \<Rightarrow> nat \<times> nat list" where
  "random_randint_0_2 rs = (fst (draw rs) mod 3, snd (draw rs))"

subsection \<open>Texts of the source\<close>

text \<open>
  The Russian texts and the emoji of the source, as UTF-8 bytes, in the order of the
  definitions:
  \<^item> the three medals of \<open>_get_medal\<close> (U+1F947, U+1F948, U+1F949);
  \<^item> \<open>txt_points\<close>, the end of a rating entry: a space, the word for "points" and a
    double quote;
  \<^item> \<open>txt_not_found\<close>, the answer of \<open>display_player_rating\<close> for a user who is
    not in the rating;
  \<^item> \<open>txt_in_progress\<close> and \<open>txt_mastered\<close>, the two statuses of
    \<open>_format_user_words\<close> ("being learned", in bold, and "learned"), and
    \<open>txt_words_header\<close>, its first line;
  \<^item> \<open>txt_correct\<close> and \<open>txt_wrong\<close>, the replies of \<open>check_answer\<close> to a right
    and to a wrong answer, and \<open>txt_continue\<close>, the request to press the button;
  \<^item> \<open>txt_how_translate\<close> and \<open>txt_how_translate_end\<close>, the question of
    \<open>start_game\<close> before and after the word;
  \<^item> \<open>txt_enter_word\<close>, the prompt of \<open>add_new_word\<close>;
  \<^item> \<open>txt_word\<close>, \<open>txt_with_translation\<close>, \<open>txt_added\<close>, \<open>txt_exists\<close> and
    \<open>txt_bad_format\<close>, the pieces of the replies of \<open>_save_new_word\<close>: added,
    already exists, wrong format;
  \<^item> \<open>txt_which_delete\<close>, the prompt of \<open>dell_word_user\<close>;
  \<^item> \<open>txt_word_bold\<close>, \<open>txt_deleted\<close> and \<open>txt_not_deleted\<close>, the pieces of the
    replies of \<open>_delete_user_word\<close>: deleted, could not be deleted;
  \<^item> \<open>fallback_words\<close>, the 20 pairs of \<open>get_fallback_words\<close>.
\<close>

definition medal_gold :: string where
  "medal_gold =
     [CHR 0xF0, CHR 0x9F, CHR 0xA5, CHR 0x87]"

definition medal_silver :: string where
  "medal_silver =
     [CHR 0xF0, CHR 0x9F, CHR 0xA5, CHR 0x88]"

definition medal_bronze :: string where
  "medal_bronze =
     [CHR 0xF0, CHR 0x9F, CHR 0xA5, CHR 0x89]"

definition txt_points :: string where
  "txt_points =
     '' '' @ [CHR 0xD0, CHR 0xBE, CHR 0xD1, CHR 0x87, CHR 0xD0, CHR 0xBA, CHR 0xD0,
       CHR 0xBE, CHR 0xD0, CHR 0xB2, CHR 0x22]"

definition txt_not_found :: string where
  "txt_not_found =
     [CHR 0xD0, CHR 0x9F, CHR 0xD0, CHR 0xBE, CHR 0xD0, CHR 0xBB, CHR 0xD1, CHR 0x8C,
       CHR 0xD0, CHR 0xB7, CHR 0xD0, CHR 0xBE, CHR 0xD0, CHR 0xB2, CHR 0xD0, CHR 0xB0,
       CHR 0xD1, CHR 0x82, CHR 0xD0, CHR 0xB5, CHR 0xD0, CHR 0xBB, CHR 0xD1, CHR 0x8C] @
       '' '' @ [CHR 0xD0, CHR 0xBD, CHR 0xD0, CHR 0xB5] @ '' '' @ [CHR 0xD0, CHR 0xBD,
       CHR 0xD0, CHR 0xB0, CHR 0xD0, CHR 0xB9, CHR 0xD0, CHR 0xB4, CHR 0xD0, CHR 0xB5,
       CHR 0xD0, CHR 0xBD] @ '' '' @ [CHR 0xD0, CHR 0xB2] @ '' '' @ [CHR 0xD1, CHR 0x80,
       CHR 0xD0, CHR 0xB5, CHR 0xD0, CHR 0xB9, CHR 0xD1, CHR 0x82, CHR 0xD0, CHR 0xB8,
       CHR 0xD0, CHR 0xBD, CHR 0xD0, CHR 0xB3, CHR 0xD0, CHR 0xB5] @ ''.''"

definition txt_in_progress :: string where
  "txt_in_progress =
     ''<b>'' @ [CHR 0xD0, CHR 0xB8, CHR 0xD0, CHR 0xB7, CHR 0xD1, CHR 0x83, CHR 0xD1,
       CHR 0x87, CHR 0xD0, CHR 0xB0, CHR 0xD0, CHR 0xB5, CHR 0xD1, CHR 0x82, CHR 0xD1,
       CHR 0x81, CHR 0xD1, CHR 0x8F] @ ''</b>''"

definition txt_mastered :: string where
  "txt_mastered =
     [CHR 0xD0, CHR 0xB8, CHR 0xD0, CHR 0xB7, CHR 0xD1, CHR 0x83, CHR 0xD1, CHR 0x87,
       CHR 0xD0, CHR 0xB5, CHR 0xD0, CHR 0xBD, CHR 0xD0, CHR 0xBE]"

definition txt_words_header :: string where
  "txt_words_header =
     [CHR 0xD0, CHR 0xA1, CHR 0xD0, CHR 0xBB, CHR 0xD0, CHR 0xBE, CHR 0xD0, CHR 0xB2,
       CHR 0xD0, CHR 0xB0] @ '', '' @ [CHR 0xD0, CHR 0xBA, CHR 0xD0, CHR 0xBE, CHR 0xD1,
       CHR 0x82, CHR 0xD0, CHR 0xBE, CHR 0xD1, CHR 0x80, CHR 0xD1, CHR 0x8B, CHR 0xD0,
       CHR 0xB5] @ '' '' @ [CHR 0xD0, CHR 0xB2, CHR 0xD1, CHR 0x8B] @ '' '' @ [CHR 0xD0,
       CHR 0xB4, CHR 0xD0, CHR 0xBE, CHR 0xD0, CHR 0xB1, CHR 0xD0, CHR 0xB0, CHR 0xD0,
       CHR 0xB2, CHR 0xD0, CHR 0xB8, CHR 0xD0, CHR 0xBB, CHR 0xD0, CHR 0xB8] @ '':'' @
       [CHR 0x0A]"

definition txt_correct :: string where
  "txt_correct =
     [CHR 0xD0, CHR 0x9F, CHR 0xD1, CHR 0x80, CHR 0xD0, CHR 0xB5, CHR 0xD0, CHR 0xB2,
       CHR 0xD0, CHR 0xBE, CHR 0xD1, CHR 0x81, CHR 0xD1, CHR 0x85, CHR 0xD0, CHR 0xBE,
       CHR 0xD0, CHR 0xB4, CHR 0xD0, CHR 0xBD, CHR 0xD0, CHR 0xBE] @ ''! '' @ [CHR 0xD0,
       CHR 0x92, CHR 0xD1, CHR 0x8B] @ '' '' @ [CHR 0xD1, CHR 0x81, CHR 0xD0, CHR 0xBF,
       CHR 0xD1, CHR 0x80, CHR 0xD0, CHR 0xB0, CHR 0xD0, CHR 0xB2, CHR 0xD0, CHR 0xB8,
       CHR 0xD0, CHR 0xBB, CHR 0xD0, CHR 0xB8, CHR 0xD1, CHR 0x81, CHR 0xD1, CHR 0x8C] @
       ''! '' @ [CHR 0xF0, CHR 0x9F, CHR 0x8C, CHR 0x9F] @ '' +1 '' @ [CHR 0xD0, CHR 0xB1,
       CHR 0xD0, CHR 0xB0, CHR 0xD0, CHR 0xBB, CHR 0xD0, CHR 0xBB] @ ''!''"

definition txt_wrong :: string where
  "txt_wrong =
     [CHR 0xD0, CHR 0x9D, CHR 0xD0, CHR 0xB5] @ '' '' @ [CHR 0xD1, CHR 0x81, CHR 0xD0,
       CHR 0xBE, CHR 0xD0, CHR 0xB2, CHR 0xD1, CHR 0x81, CHR 0xD0, CHR 0xB5, CHR 0xD0,
       CHR 0xBC] @ '' '' @ [CHR 0xD1, CHR 0x82, CHR 0xD0, CHR 0xB0, CHR 0xD0, CHR 0xBA] @
       ''. '' @ [CHR 0xD0, CHR 0x9D, CHR 0xD0, CHR 0xBE] @ '' '' @ [CHR 0xD0, CHR 0xBD,
       CHR 0xD0, CHR 0xB5] @ '' '' @ [CHR 0xD0, CHR 0xBE, CHR 0xD1, CHR 0x82, CHR 0xD1,
       CHR 0x87, CHR 0xD0, CHR 0xB0, CHR 0xD0, CHR 0xB8, CHR 0xD0, CHR 0xB2, CHR 0xD0,
       CHR 0xB0, CHR 0xD0, CHR 0xB9, CHR 0xD1, CHR 0x82, CHR 0xD0, CHR 0xB5, CHR 0xD1,
       CHR 0x81, CHR 0xD1, CHR 0x8C] @ ''! '' @ [CHR 0xF0, CHR 0x9F, CHR 0x92, CHR 0x94] @
       '' -3 '' @ [CHR 0xD0, CHR 0xB1, CHR 0xD0, CHR 0xB0, CHR 0xD0, CHR 0xBB, CHR 0xD0,
       CHR 0xBB, CHR 0xD0, CHR 0xB0] @ ''!''"

definition txt_continue :: string where
  "txt_continue =
     [CHR 0xD0, CHR 0x94, CHR 0xD1, CHR 0x8F] @ '' '' @ [CHR 0xD0, CHR 0xBF, CHR 0xD1,
       CHR 0x80, CHR 0xD0, CHR 0xBE, CHR 0xD0, CHR 0xB4, CHR 0xD0, CHR 0xBE, CHR 0xD0,
       CHR 0xBB, CHR 0xD0, CHR 0xB6, CHR 0xD0, CHR 0xB5, CHR 0xD0, CHR 0xBD, CHR 0xD0,
       CHR 0xB8, CHR 0xD1, CHR 0x8F] @ '' '' @ [CHR 0xD0, CHR 0xBD, CHR 0xD0, CHR 0xB0,
       CHR 0xD0, CHR 0xB6, CHR 0xD0, CHR 0xBC, CHR 0xD0, CHR 0xB8, CHR 0xD1, CHR 0x82,
       CHR 0xD0, CHR 0xB5] @ '' '' @ [CHR 0xD0, CHR 0xBA, CHR 0xD0, CHR 0xBD, CHR 0xD0,
       CHR 0xBE, CHR 0xD0, CHR 0xBF, CHR 0xD0, CHR 0xBA, CHR 0xD1, CHR 0x83]"

definition txt_how_translate :: string where
  "txt_how_translate =
     [CHR 0xD0, CHR 0x9A, CHR 0xD0, CHR 0xB0, CHR 0xD0, CHR 0xBA] @ '' '' @ [CHR 0xD0,
       CHR 0xBF, CHR 0xD0, CHR 0xB5, CHR 0xD1, CHR 0x80, CHR 0xD0, CHR 0xB5, CHR 0xD0,
       CHR 0xB2, CHR 0xD0, CHR 0xB5, CHR 0xD1, CHR 0x81, CHR 0xD1, CHR 0x82, CHR 0xD0,
       CHR 0xB8] @ '' '' @ [CHR 0xD1, CHR 0x81, CHR 0xD0, CHR 0xBB, CHR 0xD0, CHR 0xBE,
       CHR 0xD0, CHR 0xB2, CHR 0xD0, CHR 0xBE] @ '' '' @ [CHR 0x27] @ ''<b>''"

definition txt_how_translate_end :: string where
  "txt_how_translate_end =
     ''</b>'' @ [CHR 0x27] @ ''?''"

definition txt_enter_word :: string where
  "txt_enter_word =
     [CHR 0xD0, CHR 0x92, CHR 0xD0, CHR 0xB2, CHR 0xD0, CHR 0xB5, CHR 0xD0, CHR 0xB4,
       CHR 0xD0, CHR 0xB8, CHR 0xD1, CHR 0x82, CHR 0xD0, CHR 0xB5] @ '' '' @ [CHR 0xD1,
       CHR 0x81, CHR 0xD0, CHR 0xBB, CHR 0xD0, CHR 0xBE, CHR 0xD0, CHR 0xB2, CHR 0xD0,
       CHR 0xBE] @ '' '' @ [CHR 0xD0, CHR 0xB8] @ '' '' @ [CHR 0xD0, CHR 0xB5, CHR 0xD0,
       CHR 0xB3, CHR 0xD0, CHR 0xBE] @ '' '' @ [CHR 0xD0, CHR 0xBF, CHR 0xD0, CHR 0xB5,
       CHR 0xD1, CHR 0x80, CHR 0xD0, CHR 0xB5, CHR 0xD0, CHR 0xB2, CHR 0xD0, CHR 0xBE,
       CHR 0xD0, CHR 0xB4] @ '' '' @ [CHR 0xD1, CHR 0x87, CHR 0xD0, CHR 0xB5, CHR 0xD1,
       CHR 0x80, CHR 0xD0, CHR 0xB5, CHR 0xD0, CHR 0xB7] @ '' '' @ [CHR 0xD0, CHR 0xB7,
       CHR 0xD0, CHR 0xB0, CHR 0xD0, CHR 0xBF, CHR 0xD1, CHR 0x8F, CHR 0xD1, CHR 0x82,
       CHR 0xD1, CHR 0x83, CHR 0xD1, CHR 0x8E] @ '' ('' @ [CHR 0xD0, CHR 0xBD, CHR 0xD0,
       CHR 0xB0, CHR 0xD0, CHR 0xBF, CHR 0xD1, CHR 0x80, CHR 0xD0, CHR 0xB8, CHR 0xD0,
       CHR 0xBC, CHR 0xD0, CHR 0xB5, CHR 0xD1, CHR 0x80] @ '', '' @ [CHR 0x22, CHR 0xD0,
       CHR 0xBA, CHR 0xD0, CHR 0xBE, CHR 0xD1, CHR 0x82] @ '', cat'' @ [CHR 0x22] @ ''):''"

definition txt_word :: string where
  "txt_word =
     [CHR 0xD0, CHR 0xA1, CHR 0xD0, CHR 0xBB, CHR 0xD0, CHR 0xBE, CHR 0xD0, CHR 0xB2,
       CHR 0xD0, CHR 0xBE] @ '' '' @ [CHR 0x22]"

definition txt_with_translation :: string where
  "txt_with_translation =
     [CHR 0x22] @ '' '' @ [CHR 0xD1, CHR 0x81] @ '' '' @ [CHR 0xD0, CHR 0xBF, CHR 0xD0,
       CHR 0xB5, CHR 0xD1, CHR 0x80, CHR 0xD0, CHR 0xB5, CHR 0xD0, CHR 0xB2, CHR 0xD0,
       CHR 0xBE, CHR 0xD0, CHR 0xB4, CHR 0xD0, CHR 0xBE, CHR 0xD0, CHR 0xBC] @ '' '' @
       [CHR 0x22]"

definition txt_added :: string where
  "txt_added =
     [CHR 0x22] @ '' '' @ [CHR 0xD0, CHR 0xB1, CHR 0xD1, CHR 0x8B, CHR 0xD0, CHR 0xBB,
       CHR 0xD0, CHR 0xBE] @ '' '' @ [CHR 0xD1, CHR 0x83, CHR 0xD1, CHR 0x81, CHR 0xD0,
       CHR 0xBF, CHR 0xD0, CHR 0xB5, CHR 0xD1, CHR 0x88, CHR 0xD0, CHR 0xBD, CHR 0xD0,
       CHR 0xBE] @ '' '' @ [CHR 0xD0, CHR 0xB4, CHR 0xD0, CHR 0xBE, CHR 0xD0, CHR 0xB1,
       CHR 0xD0, CHR 0xB0, CHR 0xD0, CHR 0xB2, CHR 0xD0, CHR 0xBB, CHR 0xD0, CHR 0xB5,
       CHR 0xD0, CHR 0xBD, CHR 0xD0, CHR 0xBE] @ ''.''"

definition txt_exists :: string where
  "txt_exists =
     [CHR 0x22] @ '' '' @ [CHR 0xD1, CHR 0x83, CHR 0xD0, CHR 0xB6, CHR 0xD0, CHR 0xB5] @
       '' '' @ [CHR 0xD1, CHR 0x81, CHR 0xD1, CHR 0x83, CHR 0xD1, CHR 0x89, CHR 0xD0,
       CHR 0xB5, CHR 0xD1, CHR 0x81, CHR 0xD1, CHR 0x82, CHR 0xD0, CHR 0xB2, CHR 0xD1,
       CHR 0x83, CHR 0xD0, CHR 0xB5, CHR 0xD1, CHR 0x82] @ '' '' @ [CHR 0xD0, CHR 0xB2] @
       '' '' @ [CHR 0xD0, CHR 0xB2, CHR 0xD0, CHR 0xB0, CHR 0xD1, CHR 0x88, CHR 0xD0,
       CHR 0xB5, CHR 0xD0, CHR 0xB9] @ '' '' @ [CHR 0xD0, CHR 0xB1, CHR 0xD0, CHR 0xB0,
       CHR 0xD0, CHR 0xB7, CHR 0xD0, CHR 0xB5] @ '' '' @ [CHR 0xD0, CHR 0xB4, CHR 0xD0,
       CHR 0xB0, CHR 0xD0, CHR 0xBD, CHR 0xD0, CHR 0xBD, CHR 0xD1, CHR 0x8B, CHR 0xD1,
       CHR 0x85] @ ''.''"

definition txt_bad_format :: string where
  "txt_bad_format =
     [CHR 0xD0, CHR 0x9D, CHR 0xD0, CHR 0xB5, CHR 0xD0, CHR 0xB2, CHR 0xD0, CHR 0xB5,
       CHR 0xD1, CHR 0x80, CHR 0xD0, CHR 0xBD, CHR 0xD1, CHR 0x8B, CHR 0xD0, CHR 0xB9] @
       '' '' @ [CHR 0xD1, CHR 0x84, CHR 0xD0, CHR 0xBE, CHR 0xD1, CHR 0x80, CHR 0xD0,
       CHR 0xBC, CHR 0xD0, CHR 0xB0, CHR 0xD1, CHR 0x82] @ ''. '' @ [CHR 0xD0, CHR 0x9F,
       CHR 0xD0, CHR 0xBE, CHR 0xD0, CHR 0xBF, CHR 0xD1, CHR 0x80, CHR 0xD0, CHR 0xBE,
       CHR 0xD0, CHR 0xB1, CHR 0xD1, CHR 0x83, CHR 0xD0, CHR 0xB9, CHR 0xD1, CHR 0x82,
       CHR 0xD0, CHR 0xB5] @ '' '' @ [CHR 0xD1, CHR 0x81, CHR 0xD0, CHR 0xBD, CHR 0xD0,
       CHR 0xBE, CHR 0xD0, CHR 0xB2, CHR 0xD0, CHR 0xB0] @ ''.''"

definition txt_which_delete :: string where
  "txt_which_delete =
     [CHR 0x0A, CHR 0xD0, CHR 0xA3, CHR 0xD0, CHR 0xBA, CHR 0xD0, CHR 0xB0, CHR 0xD0,
       CHR 0xB6, CHR 0xD0, CHR 0xB8, CHR 0xD1, CHR 0x82, CHR 0xD0, CHR 0xB5] @ '' '' @
       [CHR 0xD1, CHR 0x81, CHR 0xD0, CHR 0xBB, CHR 0xD0, CHR 0xBE, CHR 0xD0, CHR 0xB2,
       CHR 0xD0, CHR 0xBE] @ '' '' @ [CHR 0xD0, CHR 0xBA, CHR 0xD0, CHR 0xBE, CHR 0xD1,
       CHR 0x82, CHR 0xD0, CHR 0xBE, CHR 0xD1, CHR 0x80, CHR 0xD0, CHR 0xBE, CHR 0xD0,
       CHR 0xB5] @ '' '' @ [CHR 0xD0, CHR 0xBD, CHR 0xD1, CHR 0x83, CHR 0xD0, CHR 0xB6,
       CHR 0xD0, CHR 0xBD, CHR 0xD0, CHR 0xBE] @ '' '' @ [CHR 0xD1, CHR 0x83, CHR 0xD0,
       CHR 0xB4, CHR 0xD0, CHR 0xB0, CHR 0xD0, CHR 0xBB, CHR 0xD0, CHR 0xB8, CHR 0xD1,
       CHR 0x82, CHR 0xD1, CHR 0x8C]"

definition txt_word_bold :: string where
  "txt_word_bold =
     [CHR 0xD0, CHR 0xA1, CHR 0xD0, CHR 0xBB, CHR 0xD0, CHR 0xBE, CHR 0xD0, CHR 0xB2,
       CHR 0xD0, CHR 0xBE] @ '' <b>''"

definition txt_deleted :: string where
  "txt_deleted =
     ''</b> '' @ [CHR 0xD1, CHR 0x83, CHR 0xD1, CHR 0x81, CHR 0xD0, CHR 0xBF, CHR 0xD0,
       CHR 0xB5, CHR 0xD1, CHR 0x88, CHR 0xD0, CHR 0xBD, CHR 0xD0, CHR 0xBE] @ '' '' @
       [CHR 0xD1, CHR 0x83, CHR 0xD0, CHR 0xB4, CHR 0xD0, CHR 0xB0, CHR 0xD0, CHR 0xBB,
       CHR 0xD0, CHR 0xB5, CHR 0xD0, CHR 0xBD, CHR 0xD0, CHR 0xBE] @ '' '' @ [CHR 0xD0,
       CHR 0xB8, CHR 0xD0, CHR 0xB7] @ '' '' @ [CHR 0xD0, CHR 0xB1, CHR 0xD0, CHR 0xB0,
       CHR 0xD0, CHR 0xB7, CHR 0xD1, CHR 0x8B] @ '' '' @ [CHR 0xD0, CHR 0xB4, CHR 0xD0,
       CHR 0xB0, CHR 0xD0, CHR 0xBD, CHR 0xD0, CHR 0xBD, CHR 0xD1, CHR 0x8B, CHR 0xD1,
       CHR 0x85] @ ''.'' @ [CHR 0x0A, CHR 0xD0, CHR 0x94, CHR 0xD0, CHR 0xBB, CHR 0xD1,
       CHR 0x8F] @ '' '' @ [CHR 0xD0, CHR 0xBF, CHR 0xD1, CHR 0x80, CHR 0xD0, CHR 0xBE,
       CHR 0xD0, CHR 0xB4, CHR 0xD0, CHR 0xBE, CHR 0xD0, CHR 0xBB, CHR 0xD0, CHR 0xB6,
       CHR 0xD0, CHR 0xB5, CHR 0xD0, CHR 0xBD, CHR 0xD0, CHR 0xB8, CHR 0xD1, CHR 0x8F] @
       '' '' @ [CHR 0xD0, CHR 0xBD, CHR 0xD0, CHR 0xB0, CHR 0xD0, CHR 0xB6, CHR 0xD0,
       CHR 0xBC, CHR 0xD0, CHR 0xB8, CHR 0xD1, CHR 0x82, CHR 0xD0, CHR 0xB5] @ '' '' @
       [CHR 0xD0, CHR 0xBA, CHR 0xD0, CHR 0xBD, CHR 0xD0, CHR 0xBE, CHR 0xD0, CHR 0xBF,
       CHR 0xD0, CHR 0xBA, CHR 0xD1, CHR 0x83] @ ''.''"

definition txt_not_deleted :: string where
  "txt_not_deleted =
     ''</b> '' @ [CHR 0xD0, CHR 0xBD, CHR 0xD0, CHR 0xB5] @ '' '' @ [CHR 0xD1, CHR 0x83,
       CHR 0xD0, CHR 0xB4, CHR 0xD0, CHR 0xB0, CHR 0xD0, CHR 0xBB, CHR 0xD0, CHR 0xBE,
       CHR 0xD1, CHR 0x81, CHR 0xD1, CHR 0x8C] @ '' '' @ [CHR 0xD1, CHR 0x83, CHR 0xD0,
       CHR 0xB4, CHR 0xD0, CHR 0xB0, CHR 0xD0, CHR 0xBB, CHR 0xD0, CHR 0xB8, CHR 0xD1,
       CHR 0x82, CHR 0xD1, CHR 0x8C] @ '' '' @ [CHR 0xD0, CHR 0xB8, CHR 0xD0, CHR 0xB7] @
       '' '' @ [CHR 0xD0, CHR 0xB1, CHR 0xD0, CHR 0xB0, CHR 0xD0, CHR 0xB7, CHR 0xD1,
       CHR 0x8B] @ '' '' @ [CHR 0xD0, CHR 0xB4, CHR 0xD0, CHR 0xB0, CHR 0xD0, CHR 0xBD,
       CHR 0xD0, CHR 0xBD, CHR 0xD1, CHR 0x8B, CHR 0xD1, CHR 0x85] @ ''.'' @ [CHR 0x0A,
       CHR 0xD0, CHR 0x94, CHR 0xD0, CHR 0xBB, CHR 0xD1, CHR 0x8F] @ '' '' @ [CHR 0xD0,
       CHR 0xBF, CHR 0xD1, CHR 0x80, CHR 0xD0, CHR 0xBE, CHR 0xD0, CHR 0xB4, CHR 0xD0,
       CHR 0xBE, CHR 0xD0, CHR 0xBB, CHR 0xD0, CHR 0xB6, CHR 0xD0, CHR 0xB5, CHR 0xD0,
       CHR 0xBD, CHR 0xD0, CHR 0xB8, CHR 0xD1, CHR 0x8F] @ '' '' @ [CHR 0xD0, CHR 0xBD,
       CHR 0xD0, CHR 0xB0, CHR 0xD0, CHR 0xB6, CHR 0xD0, CHR 0xBC, CHR 0xD0, CHR 0xB8,
       CHR 0xD1, CHR 0x82, CHR 0xD0, CHR 0xB5] @ '' '' @ [CHR 0xD0, CHR 0xBA, CHR 0xD0,
       CHR 0xBD, CHR 0xD0, CHR 0xBE, CHR 0xD0, CHR 0xBF, CHR 0xD0, CHR 0xBA, CHR 0xD1,
       CHR 0x83] @ ''.''"

definition fallback_words :: "(string \<times> string) list" where
  "fallback_words =
     [([CHR 0xD0, CHR 0xBA, CHR 0xD0, CHR 0xBE, CHR 0xD1, CHR 0x82], ''cat''),
      ([CHR 0xD1, CHR 0x81, CHR 0xD0, CHR 0xBE, CHR 0xD0, CHR 0xB1, CHR 0xD0, CHR 0xB0, CHR 0xD0, CHR 0xBA, CHR 0xD0, CHR 0xB0], ''dog''),
      ([CHR 0xD0, CHR 0xBC, CHR 0xD0, CHR 0xBE, CHR 0xD0, CHR 0xBB, CHR 0xD0, CHR 0xBE, CHR 0xD0, CHR 0xBA, CHR 0xD0, CHR 0xBE], ''milk''),
      ([CHR 0xD1, CHR 0x85, CHR 0xD0, CHR 0xBB, CHR 0xD0, CHR 0xB5, CHR 0xD0, CHR 0xB1], ''bread''),
      ([CHR 0xD1, CHR 0x8F, CHR 0xD0, CHR 0xB1, CHR 0xD0, CHR 0xBB, CHR 0xD0, CHR 0xBE, CHR 0xD0, CHR 0xBA, CHR 0xD0, CHR 0xBE], ''apple''),
      ([CHR 0xD0, CHR 0xBC, CHR 0xD0, CHR 0xB0, CHR 0xD1, CHR 0x88, CHR 0xD0, CHR 0xB8, CHR 0xD0, CHR 0xBD, CHR 0xD0, CHR 0xB0], ''car''),
      ([CHR 0xD0, CHR 0xB4, CHR 0xD0, CHR 0xBE, CHR 0xD0, CHR 0xBC], ''house''),
      ([CHR 0xD0, CHR 0xBE, CHR 0xD0, CHR 0xBA, CHR 0xD0, CHR 0xBD, CHR 0xD0, CHR 0xBE], ''window''),
      ([CHR 0xD0, CHR 0xB4, CHR 0xD0, CHR 0xB5, CHR 0xD1, CHR 0x80, CHR 0xD0, CHR 0xB5, CHR 0xD0, CHR 0xB2, CHR 0xD0, CHR 0xBE], ''tree''),
      ([CHR 0xD0, CHR 0xBA, CHR 0xD0, CHR 0xBD, CHR 0xD0, CHR 0xB8, CHR 0xD0, CHR 0xB3, CHR 0xD0, CHR 0xB0], ''book''),
      ([CHR 0xD1, CHR 0x80, CHR 0xD1, CHR 0x83, CHR 0xD1, CHR 0x87, CHR 0xD0, CHR 0xBA, CHR 0xD0, CHR 0xB0], ''pen''),
      ([CHR 0xD1, CHR 0x81, CHR 0xD1, CHR 0x82, CHR 0xD0, CHR 0xBE, CHR 0xD0, CHR 0xBB], ''table''),
      ([CHR 0xD1, CHR 0x81, CHR 0xD1, CHR 0x82, CHR 0xD1, CHR 0x83, CHR 0xD0, CHR 0xBB], ''chair''),
      ([CHR 0xD1, CHR 0x87, CHR 0xD0, CHR 0xB0, CHR 0xD1, CHR 0x81, CHR 0xD1, CHR 0x8B], ''clock''),
      ([CHR 0xD0, CHR 0xB7, CHR 0xD0, CHR 0xBE, CHR 0xD0, CHR 0xBD, CHR 0xD1, CHR 0x82], ''umbrella''),
      ([CHR 0xD1, CHR 0x81, CHR 0xD0, CHR 0xBE, CHR 0xD0, CHR 0xBB, CHR 0xD0, CHR 0xBD, CHR 0xD1, CHR 0x86, CHR 0xD0, CHR 0xB5], ''sun''),
      ([CHR 0xD0, CHR 0xBB, CHR 0xD1, CHR 0x83, CHR 0xD0, CHR 0xBD, CHR 0xD0, CHR 0xB0], ''moon''),
      ([CHR 0xD0, CHR 0xB7, CHR 0xD0, CHR 0xB2, CHR 0xD0, CHR 0xB5, CHR 0xD0, CHR 0xB7, CHR 0xD0, CHR 0xB4, CHR 0xD0, CHR 0xB0], ''star''),
      ([CHR 0xD1, CHR 0x80, CHR 0xD1, CHR 0x8B, CHR 0xD0, CHR 0xB1, CHR 0xD0, CHR 0xB0], ''fish''),
      ([CHR 0xD0, CHR 0xBF, CHR 0xD1, CHR 0x82, CHR 0xD0, CHR 0xB8, CHR 0xD1, CHR 0x86, CHR 0xD0, CHR 0xB0], ''bird'')]"

subsection \<open>The state: tables, CSV file, generator, chat\<close>

text \<open>
  The rows of the tables \<open>users\<close>, \<open>word\<close> and \<open>users_word\<close> of \<open>add_tabl\<close>.
  \<open>word.user_id\<close> holds the Telegram id of the owner, or NULL for the shared pool;
  \<open>users_word.user_id\<close> holds \<open>users.id\<close>. A column that the code may write as
  NULL is an \<open>option\<close>; the columns the code always fills are plain values, and SQL
  integers are unbounded here.
\<close>

record users_row =
  u_id :: int
  u_telegram_user_id :: int
  u_name :: string
  u_points :: int

record word_row =
  w_id :: int
  w_user_id :: "int option"
  w_russian_words :: string
  w_translation :: string

record users_word_row =
  uw_id :: int
  uw_user_id :: int
  uw_word_id :: "int option"
  uw_times_shown :: int

text \<open>What the bot has sent, and the next-step handler registered for a chat.\<close>

record sent_message =
  sm_chat_id :: int
  sm_text :: string
  sm_reply_markup :: "string list option"
  sm_parse_mode :: "string option"

datatype handler =
    Check_answer "int option" string
  | Save_new_word int
  | Delete_user_word int

record message =
  chat_id :: int
  from_user_id :: int
  m_text :: string

text \<open>
  \<open>csv_file\<close> is the content of \<open>russian_english_words.csv\<close> as \<open>csv.reader\<close>
  returns it, a list of rows of fields, or \<open>None\<close> when the file cannot be opened.
  \<open>word_seq\<close> and \<open>users_word_seq\<close> are the last values given out by the
  \<open>SERIAL\<close> sequences of the two tables.
\<close>

record world =
  tbl_users :: "users_row list"
  tbl_word :: "word_row list"
  tbl_users_word :: "users_word_row list"
  word_seq :: int
  users_word_seq :: int
  csv_file :: "string list list option"
  rng :: "nat list"
  sent :: "sent_message list"
  next_step :: "(int \<times> handler) list"

text \<open>
  The module \<open>btn_text\<close> and the string methods \<open>lower\<close>, \<open>strip\<close> and
  \<open>capitalize\<close> are not part of the sources; they are parameters.
\<close>

record externals =
  BTN_STAR_GEME :: string
  BTN_VIEW_RATING :: string
  BTN_ADD_WORD :: string
  BTN_DEL_WORD :: string
  BTN_Back :: string
  str_lower :: "string \<Rightarrow> string"
  str_strip :: "string \<Rightarrow> string"
  str_capitalize :: "string \<Rightarrow> string"

definition send_message ::
  "world \<Rightarrow> int \<Rightarrow> string \<Rightarrow> string list option \<Rightarrow> string option \<Rightarrow> world" where
  "send_message st chat txt markup mode =
     st\<lparr>sent := sent st @
       [\<lparr>sm_chat_id = chat, sm_text = txt, sm_reply_markup = markup, sm_parse_mode = mode\<rparr>]\<rparr>"

definition register_next_step_handler :: "world \<Rightarrow> int \<Rightarrow> handler \<Rightarrow> world" where
  "register_next_step_handler st chat h = st\<lparr>next_step := next_step st @ [(chat, h)]\<rparr>"

subsection \<open>buttons.py\<close>

definition start_button :: "externals \<Rightarrow> string list" where
  "start_button ext = [BTN_STAR_GEME ext]"

definition translation_buttons :: "externals \<Rightarrow> world \<Rightarrow> string list \<Rightarrow> string list \<times> world" where
  "translation_buttons ext st text_buttons =
     (let shuffled = random_shuffle (rng st) text_buttons
      in (fst shuffled @ [BTN_ADD_WORD ext, BTN_DEL_WORD ext, BTN_VIEW_RATING ext],
          st\<lparr>rng := snd shuffled\<rparr>))"

definition universal_buttons :: "world \<Rightarrow> string list \<Rightarrow> string list \<times> world" where
  "universal_buttons st text_buttons =
     (let shuffled = random_shuffle (rng st) text_buttons
      in (fst shuffled, st\<lparr>rng := snd shuffled\<rparr>))"

subsection \<open>DatabaseUtils\<close>

text \<open>
  Modelled from the spec: the base class \<open>Database\<close> (\<open>select_data\<close>,
  \<open>insert_data\<close>, \<open>update_data\<close>, \<open>delete_data\<close>) is not among the sources.
  Each query below is the SQL text that the method of \<open>DatabaseUtils\<close> builds, read
  over the row lists: \<open>select_data\<close> returns the matching rows in table order,
  \<open>insert_data\<close> appends a row with the next value of the \<open>SERIAL\<close> sequence,
  \<open>update_data\<close> rewrites the matching rows and \<open>delete_data\<close> removes them. The
  storage answers every query: a failure of the connection is not part of the state.
\<close>

definition search_user :: "world \<Rightarrow> int \<Rightarrow> (int \<times> string \<times> int) option" where
  "search_user st tg_user_id =
     (case filter (\<lambda>u. u_telegram_user_id u = tg_user_id) (tbl_users st) of
        [] \<Rightarrow> None
      | u # _ \<Rightarrow> Some (u_id u, u_name u, u_points u))"

definition search_word :: "world \<Rightarrow> string \<Rightarrow> int option \<Rightarrow> int option" where
  "search_word st wrd user_id =
     (case filter (\<lambda>w. w_russian_words w = wrd \<and> w_user_id w = user_id) (tbl_word st) of
        [] \<Rightarrow> None
      | w # _ \<Rightarrow> Some (w_id w))"

text \<open>
  Modelled from the spec: \<open>Database.insert_data\<close> is not among the sources; its
  result, which \<open>save_word\<close> returns and \<open>read_words_csv\<close> stores as the id of the
  word, is the identifier of the new row (\<open>createWord(term, translation, ownerId) ->
  internalId\<close>).
\<close>

definition save_word :: "world \<Rightarrow> string \<Rightarrow> string \<Rightarrow> int option \<Rightarrow> int \<times> world" where
  "save_word st wrd translation user_id =
     (let new_id = word_seq st + 1
      in (new_id,
          st\<lparr>tbl_word := tbl_word st @
                [\<lparr>w_id = new_id, w_user_id = user_id, w_russian_words = wrd,
                  w_translation = translation\<rparr>],
             word_seq := new_id\<rparr>))"

text \<open>
  The sub-select of \<open>get_random_words_for_user\<close>: the \<open>word_id\<close> groups of the
  user's rows of \<open>users_word\<close> whose \<open>SUM(times_shown)\<close> is at least 4. A
  Telegram id without a row in \<open>users\<close> makes the scalar sub-select NULL and the
  comparison with it unknown, so no row is selected; \<open>telegram_user_id\<close> is declared
  \<open>UNIQUE\<close>, so the first matching row of \<open>users\<close> is the only one.
  \<open>x NOT IN (...)\<close> is true only when the list holds neither \<open>x\<close> nor NULL.
\<close>

definition mastered_word_ids :: "world \<Rightarrow> int \<Rightarrow> int option list" where
  "mastered_word_ids st user_id =
     (case filter (\<lambda>u. u_telegram_user_id u = user_id) (tbl_users st) of
        [] \<Rightarrow> []
      | u # _ \<Rightarrow>
          (let rows = filter (\<lambda>r. uw_user_id r = u_id u) (tbl_users_word st)
           in filter
                (\<lambda>wid. 4 \<le> sum_list (map uw_times_shown (filter (\<lambda>r. uw_word_id r = wid) rows)))
                (remdups (map uw_word_id rows))))"

definition sql_not_in :: "int \<Rightarrow> int option list \<Rightarrow> bool" where
  "sql_not_in x ys \<longleftrightarrow> Some x \<notin> set ys \<and> None \<notin> set ys"

definition get_random_words_for_user ::
  "world \<Rightarrow> int \<Rightarrow> nat \<Rightarrow> bool \<Rightarrow> (string, string \<times> int) dict \<times> world" where
  "get_random_words_for_user st user_id quantity flag =
     (let selected = filter
            (\<lambda>w. sql_not_in (w_id w) (mastered_word_ids st user_id) \<and>
                 (if flag then w_user_id w = Some user_id else w_user_id w = None))
            (tbl_word st);
          ordered = random_shuffle (rng st) selected;
          result_bd_word = take quantity (fst ordered)
      in (fold (\<lambda>words words_dict.
                  dict_setitem words_dict (w_russian_words words) (w_translation words, w_id words))
            result_bd_word [],
          st\<lparr>rng := snd ordered\<rparr>))"

definition update_points :: "world \<Rightarrow> int \<Rightarrow> int \<Rightarrow> bool \<Rightarrow> world" where
  "update_points st user_id pts add =
     st\<lparr>tbl_users :=
          map (\<lambda>u. if u_telegram_user_id u = user_id
                    then u\<lparr>u_points := (if add then u_points u + pts else u_points u - pts)\<rparr>
                    else u)
            (tbl_users st)\<rparr>"

text \<open>
  \<open>update_times_shown\<close>: the first select compares \<open>uw.word_id\<close> with the
  parameter (never true for NULL) and \<open>uw.user_id\<close> with the scalar sub-select on
  \<open>users\<close>. \<open>user_id[0][0]\<close> on an empty result raises \<open>IndexError\<close>.
\<close>

definition update_times_shown :: "world \<Rightarrow> int \<Rightarrow> int option \<Rightarrow> error + world" where
  "update_times_shown st telegram_user_id word_id =
     (let user_word_id =
            (case filter (\<lambda>u. u_telegram_user_id u = telegram_user_id) (tbl_users st) of
               [] \<Rightarrow> []
             | u # _ \<Rightarrow>
                 filter (\<lambda>r. word_id \<noteq> None \<and> uw_word_id r = word_id \<and> uw_user_id r = u_id u)
                   (tbl_users_word st))
      in case user_word_id of
           r # _ \<Rightarrow>
             Inr (st\<lparr>tbl_users_word :=
                       map (\<lambda>x. if uw_id x = uw_id r
                                 then x\<lparr>uw_times_shown := uw_times_shown x + 1\<rparr> else x)
                         (tbl_users_word st)\<rparr>)
         | [] \<Rightarrow>
             (case filter (\<lambda>u. u_telegram_user_id u = telegram_user_id) (tbl_users st) of
                [] \<Rightarrow> Inl IndexError
              | u # _ \<Rightarrow>
                  Inr (st\<lparr>tbl_users_word := tbl_users_word st @
                            [\<lparr>uw_id = users_word_seq st + 1, uw_user_id = u_id u,
                              uw_word_id = word_id, uw_times_shown = 1\<rparr>],
                          users_word_seq := users_word_seq st + 1\<rparr>)))"

text \<open>
  \<open>get_player_ratings\<close>: \<open>ORDER BY points DESC\<close>. SQL leaves the order of equal
  points open; the stable order of the table is taken.
\<close>

record rating =
  r_telegram_user_id :: int
  r_name :: string
  r_points :: int

definition get_player_ratings :: "world \<Rightarrow> rating list" where
  "get_player_ratings st =
     map (\<lambda>u. \<lparr>r_telegram_user_id = u_telegram_user_id u, r_name = u_name u,
                r_points = u_points u\<rparr>)
       (sort_key (\<lambda>u. - u_points u) (tbl_users st))"

text \<open>
  \<open>get_user_word\<close>: \<open>word w LEFT JOIN users_word uw ON w.id = uw.word_id\<close> for the
  words of the owner; a word without a row of \<open>users_word\<close> has \<open>times_shown\<close> NULL.
\<close>

definition get_user_word :: "world \<Rightarrow> int \<Rightarrow> (string, int option) dict" where
  "get_user_word st user_id =
     fold (\<lambda>wrd words. dict_setitem words (fst wrd) (snd wrd))
       (concat
          (map (\<lambda>w. case filter (\<lambda>r. uw_word_id r = Some (w_id w)) (tbl_users_word st) of
                       [] \<Rightarrow> [(w_russian_words w, None)]
                     | rs \<Rightarrow> map (\<lambda>r. (w_russian_words w, Some (uw_times_shown r))) rs)
             (filter (\<lambda>w. w_user_id w = Some user_id) (tbl_word st))))
       []"

text \<open>
  Modelled from the spec: \<open>Database.delete_data\<close> is not among the sources; its
  result, which \<open>delete_word\<close> returns, is whether a row was removed
  (\<open>deleteUserWord(term, userId) -> success boolean\<close>; deleting a nonexistent word
  returns failure). \<open>users_word.word_id\<close> is declared \<open>ON DELETE CASCADE\<close> in
  \<open>add_tabl\<close>, so the exposure rows of a deleted word go with it.
\<close>

definition delete_word :: "world \<Rightarrow> string \<Rightarrow> int \<Rightarrow> bool \<times> world" where
  "delete_word st wrd user_id =
     (let hit = (\<lambda>w. w_russian_words w = wrd \<and> w_user_id w = Some user_id);
          gone = map w_id (filter hit (tbl_word st))
      in (gone \<noteq> [],
          st\<lparr>tbl_word := filter (\<lambda>w. \<not> hit w) (tbl_word st),
             tbl_users_word :=
               filter (\<lambda>r. uw_word_id r \<notin> set (map Some gone)) (tbl_users_word st)\<rparr>))"


subsection \<open>GameUtils: the rating view\<close>

definition get_medal :: "nat \<Rightarrow> string" where
  "get_medal idx =
     (if idx = 1 then medal_gold
      else if idx = 2 then medal_silver
      else if idx = 3 then medal_bronze
      else str_nat idx @ ''.'')"

definition format_rating_entry :: "nat \<Rightarrow> nat \<Rightarrow> rating \<Rightarrow> string" where
  "format_rating_entry user_position idx user =
     (if user_position = idx
      then ''<b>'' @ get_medal idx @ '' '' @ r_name user @ '' - '' @ [CHR 0x22] @
           str_int (r_points user) @ txt_points @ ''</b>'' @ [CHR 0x0A]
      else get_medal idx @ '' '' @ r_name user @ '' - '' @ [CHR 0x22] @
           str_int (r_points user) @ txt_points @ [CHR 0x0A])"

text \<open>The search loop of \<open>display_player_rating\<close>: the 1-based place of the first
  entry with the Telegram id, counting from \<open>idx\<close>.\<close>

fun user_position_of :: "rating list \<Rightarrow> int \<Rightarrow> nat \<Rightarrow> nat option" where
  "user_position_of [] telegram_user_id idx = None"
| "user_position_of (user # rest) telegram_user_id idx =
     (if r_telegram_user_id user = telegram_user_id then Some (idx + 1)
      else user_position_of rest telegram_user_id (idx + 1))"

definition display_player_rating :: "world \<Rightarrow> int \<Rightarrow> string" where
  "display_player_rating st telegram_user_id =
     (let rating_data = get_player_ratings st
      in case user_position_of rating_data telegram_user_id 0 of
           Some user_position \<Rightarrow>
             if user_position \<le> 3 then
               concat (map (\<lambda>(idx, user). format_rating_entry user_position (idx + 1) user)
                         (enumerate 0 (take 3 rating_data)))
             else if user_position \<in> {4, 5} then
               concat (map (\<lambda>(idx, user). format_rating_entry user_position (idx + 1) user)
                         (enumerate 0 (take user_position rating_data)))
             else
               concat (map (\<lambda>(idx, user).
                              get_medal (idx + 1) @ '' '' @ r_name user @ '' - '' @ [CHR 0x22] @
                              str_int (r_points user) @ txt_points @ [CHR 0x0A])
                         (enumerate 0 (take 3 rating_data))) @
               ''...'' @ [CHR 0x0A] @
               ''<b>'' @ [CHR 0x09] @ str_nat user_position @ ''.'' @
               r_name (rating_data ! (user_position - 1)) @ '' - '' @ [CHR 0x22] @
               str_int (r_points (rating_data ! (user_position - 1))) @ txt_points @ ''</b>''
         | None \<Rightarrow> txt_not_found)"

subsection \<open>GameUtils: the list of the user's words\<close>

fun str_join :: "string \<Rightarrow> string list \<Rightarrow> string" where
  "str_join sep [] = []"
| "str_join sep [x] = x"
| "str_join sep (x # y # ys) = x @ sep @ str_join sep (y # ys)"

text \<open>The conditional expression of \<open>_format_user_words\<close> that chooses the status.\<close>

definition word_status :: "int option \<Rightarrow> string" where
  "word_status times_shown =
     (case times_shown of
        None \<Rightarrow> txt_in_progress
      | Some t \<Rightarrow> if t < 4 then txt_in_progress else txt_mastered)"

definition format_user_words :: "world \<Rightarrow> int \<Rightarrow> string" where
  "format_user_words st user_id =
     txt_words_header @
     str_join [CHR 0x0A]
       (map (\<lambda>(wrd, times_shown). wrd @ '' - '' @ word_status times_shown)
          (get_user_word st user_id))"

subsection \<open>GameUtils: the word sources\<close>

text \<open>
  \<open>get_fallback_words\<close>: a sample of the 20 built-in pairs; each sampled word that
  the shared pool lacks is saved.
\<close>

fun fallback_loop ::
  "(string \<times> string) list \<Rightarrow> (string, string) dict \<Rightarrow> world \<Rightarrow> (string, string) dict \<times> world" where
  "fallback_loop [] words_dict st = (words_dict, st)"
| "fallback_loop ((wrd, translation) # rest) words_dict st =
     (let st1 = (case search_word st wrd None of
                   None \<Rightarrow> snd (save_word st wrd translation None)
                 | Some _ \<Rightarrow> st)
      in fallback_loop rest (dict_setitem words_dict wrd translation) st1)"

definition get_fallback_words :: "world \<Rightarrow> nat \<Rightarrow> error + (string, string) dict \<times> world" where
  "get_fallback_words st quantity =
     (case random_sample (rng st) fallback_words quantity of
        (Inl e, rs) \<Rightarrow> Inl e
      | (Inr selected_words, rs) \<Rightarrow> Inr (fallback_loop selected_words [] (st\<lparr>rng := rs\<rparr>)))"

text \<open>
  The \<open>for\<close> loop of \<open>read_words_csv\<close> over the sampled rows. \<open>word_list[0]\<close> and
  \<open>word_list[1]\<close> raise \<open>IndexError\<close> on a row that is too short; the dictionary
  and the table are then as the rows before left them.
\<close>

fun csv_rows_loop ::
  "string list list \<Rightarrow> (string, string \<times> int) dict \<Rightarrow> world \<Rightarrow>
     error option \<times> (string, string \<times> int) dict \<times> world" where
  "csv_rows_loop [] words_dict st = (None, words_dict, st)"
| "csv_rows_loop ([] # rest) words_dict st = (Some IndexError, words_dict, st)"
| "csv_rows_loop ([w0] # rest) words_dict st = (Some IndexError, words_dict, st)"
| "csv_rows_loop ((w0 # w1 # ws) # rest) words_dict st =
     (case search_word st w0 None of
        None \<Rightarrow>
          (let saved = save_word st w0 w1 None
           in csv_rows_loop rest (dict_setitem words_dict w0 (w1, fst saved)) (snd saved))
      | Some id_word \<Rightarrow> csv_rows_loop rest (dict_setitem words_dict w0 (w1, id_word)) st)"

text \<open>
  The \<open>try\<close> block of \<open>read_words_csv\<close> up to the top-up: either an exception was
  raised (\<open>Raised\<close>, with the dictionary and state reached), or the rows were read
  and sampled (\<open>Selected words selected_words words_dict st\<close>).
\<close>

datatype csv_outcome =
    Raised "(string, string \<times> int) dict" world
  | Selected "string list list" "string list list" "(string, string \<times> int) dict" world

definition csv_try :: "world \<Rightarrow> nat \<Rightarrow> csv_outcome" where
  "csv_try st quantity =
     (case csv_file st of
        None \<Rightarrow> Raised [] st
      | Some words \<Rightarrow>
          (case random_sample (rng st) (tl words)
                  (if length (tl words) < quantity then length (tl words) else quantity) of
             (Inl e, rs) \<Rightarrow> Raised [] (st\<lparr>rng := rs\<rparr>)
           | (Inr selected_words, rs) \<Rightarrow>
               (case csv_rows_loop selected_words [] (st\<lparr>rng := rs\<rparr>) of
                  (Some e, words_dict, st1) \<Rightarrow> Raised words_dict st1
                | (None, words_dict, st1) \<Rightarrow> Selected words selected_words words_dict st1)))"

text \<open>
  \<open>read_words_csv\<close> and \<open>read_words_bd\<close> call each other. The first argument is
  fuel: the depth of calls still allowed; \<open>None\<close> is a call that needs more. A call
  that is \<open>None\<close> for every fuel never returns (CPython ends it at its recursion
  limit).
\<close>

fun read_words_csv :: "nat \<Rightarrow> world \<Rightarrow> int \<Rightarrow> nat \<Rightarrow> ((string, string \<times> int) dict \<times> world) option"
  and read_words_bd :: "nat \<Rightarrow> world \<Rightarrow> int \<Rightarrow> nat \<Rightarrow> ((string, string \<times> int) dict \<times> world) option"
where
  "read_words_csv 0 st user_id quantity = None"
| "read_words_csv (Suc n) st user_id quantity =
     (case csv_try st quantity of
        Raised words_dict st1 \<Rightarrow>
          (case read_words_bd n st1 user_id quantity of
             None \<Rightarrow> None
           | Some (result, st2) \<Rightarrow> Some (dict_update words_dict result, st2))
      | Selected words selected_words words_dict st1 \<Rightarrow>
          if length words_dict < quantity then
            (case read_words_bd n st1 user_id (quantity - length words_dict) of
               None \<Rightarrow> None
             | Some (result, st2) \<Rightarrow>
                 Some (dict_update words_dict result,
                       st2\<lparr>csv_file := Some (filter (\<lambda>wrd. wrd \<notin> set selected_words) words)\<rparr>))
          else
            Some (words_dict,
                  st1\<lparr>csv_file := Some (filter (\<lambda>wrd. wrd \<notin> set selected_words) words)\<rparr>))"
| "read_words_bd 0 st user_id quantity = None"
| "read_words_bd (Suc n) st user_id quantity =
     (let found = get_random_words_for_user st user_id quantity False
      in if length (fst found) < quantity then
           (case read_words_csv n (snd found) user_id (quantity - length (fst found)) of
              None \<Rightarrow> None
            | Some (csv_word, st2) \<Rightarrow> Some (dict_update (fst found) csv_word, st2))
         else Some found)"

definition read_words_bd_added_user ::
  "nat \<Rightarrow> world \<Rightarrow> int \<Rightarrow> ((string, string \<times> int) dict \<times> world) option" where
  "read_words_bd_added_user n st user_id =
     (let found = get_random_words_for_user st user_id 4 True
      in if length (fst found) < 4 then
           (case read_words_bd n (snd found) user_id (4 - length (fst found)) of
              None \<Rightarrow> None
            | Some (bd_word, st2) \<Rightarrow> Some (dict_update (fst found) bd_word, st2))
         else Some found)"

subsection \<open>GameUtils: a round\<close>

text \<open>
  \<open>word_generator\<close> returns the word, its translation, the other translations and
  the id of the word. \<open>select_source\<close> is its first part, up to the \<open>try\<close>: the
  random choice of one of the three sources and the call of it. Inside the \<open>try\<close>
  only \<open>list(word_dict.keys())[0]\<close> can raise, on an empty dictionary, and the handler
  then serves the built-in words.
\<close>

type_synonym round = "string \<times> string \<times> string list \<times> int option"

definition select_source ::
  "nat \<Rightarrow> world \<Rightarrow> message \<Rightarrow> ((string, string \<times> int) dict \<times> world) option" where
  "select_source n st msg =
     (let id_user = from_user_id msg;
          flag = fst (random_randint_0_2 (rng st));
          st0 = st\<lparr>rng := snd (random_randint_0_2 (rng st))\<rparr>
      in if flag = 0 then read_words_csv n st0 id_user 4
         else if flag = 1 then read_words_bd_added_user n st0 id_user
         else read_words_bd n st0 id_user 4)"

definition word_generator :: "nat \<Rightarrow> world \<Rightarrow> message \<Rightarrow> (error + round \<times> world) option" where
  "word_generator n st msg =
     (case select_source n st msg of
        None \<Rightarrow> None
      | Some (word_dict, st1) \<Rightarrow>
          (case word_dict of
             (wrd, (translation, id_word)) # others \<Rightarrow>
               Some (Inr ((wrd, translation, map (\<lambda>item. fst (snd item)) others, Some id_word),
                          st1))
           | [] \<Rightarrow>
               (case get_fallback_words st1 4 of
                  Inl e \<Rightarrow> Some (Inl e)
                | Inr (fb, st2) \<Rightarrow>
                    (case fb of
                       [] \<Rightarrow> Some (Inl IndexError)
                     | (wrd, translation) # others \<Rightarrow>
                         Some (Inr ((wrd, translation, map snd others,
                                     search_word st2 wrd None), st2))))))"

definition start_game :: "nat \<Rightarrow> externals \<Rightarrow> world \<Rightarrow> message \<Rightarrow> (error + world) option" where
  "start_game n ext st msg =
     (case word_generator n st msg of
        None \<Rightarrow> None
      | Some (Inl e) \<Rightarrow> Some (Inl e)
      | Some (Inr ((wrd, correct_translation, text_buttons, id_word_db), st1)) \<Rightarrow>
          (let markup = translation_buttons ext st1 (text_buttons @ [correct_translation]);
               st2 = send_message (snd markup) (chat_id msg)
                       (txt_how_translate @ wrd @ txt_how_translate_end)
                       (Some (fst markup)) (Some ''HTML'')
           in Some (Inr (register_next_step_handler st2 (chat_id msg)
                           (Check_answer id_word_db correct_translation)))))"

definition add_new_word :: "externals \<Rightarrow> world \<Rightarrow> message \<Rightarrow> world" where
  "add_new_word ext st msg =
     (let markup = universal_buttons st [BTN_Back ext];
          st1 = send_message (snd markup) (chat_id msg) txt_enter_word (Some (fst markup)) None
      in register_next_step_handler st1 (chat_id msg) (Save_new_word (from_user_id msg)))"

definition dell_word_user :: "externals \<Rightarrow> world \<Rightarrow> message \<Rightarrow> world" where
  "dell_word_user ext st msg =
     (let word_message = format_user_words st (from_user_id msg);
          markup = universal_buttons st [BTN_Back ext];
          st1 = send_message (snd markup) (chat_id msg) (word_message @ txt_which_delete)
                  (Some (fst markup)) (Some ''HTML'')
      in register_next_step_handler st1 (chat_id msg) (Delete_user_word (from_user_id msg)))"

definition check_answer ::
  "nat \<Rightarrow> externals \<Rightarrow> world \<Rightarrow> message \<Rightarrow> int option \<Rightarrow> string \<Rightarrow> (error + world) option" where
  "check_answer n ext st msg id_word correct_translation =
     (let user_answer = m_text msg; user_id = from_user_id msg
      in if user_answer = correct_translation then
           (let st1 = send_message st (chat_id msg) txt_correct None None;
                st2 = update_points st1 user_id 1 True
            in case update_times_shown st2 user_id id_word of
                 Inl e \<Rightarrow> Some (Inl e)
               | Inr st3 \<Rightarrow> start_game n ext st3 msg)
         else if user_answer = BTN_VIEW_RATING ext then
           (let result = display_player_rating st user_id;
                st1 = send_message st (chat_id msg) result None (Some ''HTML'')
            in Some (Inr (send_message st1 (chat_id msg) txt_continue
                            (Some (start_button ext)) None)))
         else if user_answer = BTN_ADD_WORD ext then Some (Inr (add_new_word ext st msg))
         else if user_answer = BTN_DEL_WORD ext then Some (Inr (dell_word_user ext st msg))
         else
           (let st1 = send_message st (chat_id msg) txt_wrong None None;
                st2 = update_points st1 user_id 3 False
            in start_game n ext st2 msg))"

subsection \<open>GameUtils: the user's own words\<close>

text \<open>\<open>s.split(',')\<close>.\<close>

fun str_split :: "char \<Rightarrow> string \<Rightarrow> string list" where
  "str_split c [] = [[]]"
| "str_split c (x # xs) =
     (if x = c then [] # str_split c xs
      else (case str_split c xs of
              [] \<Rightarrow> [[x]]
            | y # ys \<Rightarrow> (x # y) # ys))"

text \<open>
  \<open>_save_new_word\<close>. \<open>not self.db.search_word(word, user_id)\<close> holds for
  \<open>None\<close> and for the identifier 0.
\<close>

definition save_new_word ::
  "nat \<Rightarrow> externals \<Rightarrow> world \<Rightarrow> message \<Rightarrow> int \<Rightarrow> (error + world) option" where
  "save_new_word n ext st msg user_id =
     (case str_split (CHR '','') (str_lower ext (m_text msg)) of
        [] \<Rightarrow> Some (Inl IndexError)
      | t0 # ts \<Rightarrow>
          if str_strip ext t0 = str_lower ext (BTN_Back ext) then start_game n ext st msg
          else
            (case ts of
               [t1] \<Rightarrow>
                 (let wrd = str_strip ext t0; translation = str_strip ext t1
                  in if (case search_word st wrd (Some user_id) of
                           None \<Rightarrow> True
                         | Some i \<Rightarrow> i = 0)
                     then
                       (let st1 = snd (save_word st wrd translation (Some user_id));
                            st2 = send_message st1 (chat_id msg)
                                    (txt_word @ wrd @ txt_with_translation @ translation @
                                     txt_added) None None;
                            word_message = format_user_words st2 user_id
                        in Some (Inr (send_message st2 (chat_id msg)
                                        (word_message @ [CHR 0x0A] @ txt_continue)
                                        (Some (start_button ext)) (Some ''HTML''))))
                     else
                       Some (Inr (send_message st (chat_id msg)
                                    (txt_word @ wrd @ txt_exists) None None)))
             | _ \<Rightarrow> Some (Inr (send_message st (chat_id msg) txt_bad_format None None))))"

definition delete_user_word ::
  "nat \<Rightarrow> externals \<Rightarrow> world \<Rightarrow> message \<Rightarrow> int \<Rightarrow> (error + world) option" where
  "delete_user_word n ext st msg user_id =
     (let txt = str_strip ext (str_lower ext (m_text msg))
      in if txt = str_lower ext (BTN_Back ext) then start_game n ext st msg
         else
           (let result = delete_word st txt user_id
            in if fst result then
                 Some (Inr (send_message (snd result) (chat_id msg)
                              (txt_word_bold @ str_capitalize ext txt @ txt_deleted)
                              (Some (start_button ext)) (Some ''HTML'')))
               else
                 Some (Inr (send_message (snd result) (chat_id msg)
                              (txt_word_bold @ str_capitalize ext txt @ txt_not_deleted)
                              (Some (start_button ext)) (Some ''HTML'')))))"


subsection \<open>The exposure of a word, in the words of the specification\<close>

text \<open>
  The cumulative exposure of a word for a user: the sum of \<open>times_shown\<close> over the
  rows of \<open>users_word\<close> for the word and for the internal id that \<open>search_user\<close>
  finds for the Telegram id; 0 for an unknown user.
\<close>

definition cumulative_exposure :: "world \<Rightarrow> int \<Rightarrow> int \<Rightarrow> int" where
  "cumulative_exposure st user_id wid =
     (case search_user st user_id of
        None \<Rightarrow> 0
      | Some (uid, _, _) \<Rightarrow>
          sum_list (map uw_times_shown
            (filter (\<lambda>r. uw_user_id r = uid \<and> uw_word_id r = Some wid) (tbl_users_word st))))"

text \<open>
  The words that are eligible for a user: the rows of \<open>word\<close> of the asked owner (the
  user, or nobody for the shared pool) whose cumulative exposure for the user is below 4.
\<close>

definition eligible_words :: "world \<Rightarrow> int \<Rightarrow> bool \<Rightarrow> word_row list" where
  "eligible_words st user_id flag =
     filter
       (\<lambda>w. cumulative_exposure st user_id (w_id w) < 4 \<and>
            (if flag then w_user_id w = Some user_id else w_user_id w = None))
       (tbl_word st)"

subsection \<open>Example states\<close>

text \<open>Button texts for the examples; the string methods leave their argument as it is.\<close>

definition ext0 :: externals where
  "ext0 =
     \<lparr>BTN_STAR_GEME = ''start'', BTN_VIEW_RATING = ''rating'', BTN_ADD_WORD = ''add'',
      BTN_DEL_WORD = ''del'', BTN_Back = ''back'', str_lower = id, str_strip = id,
      str_capitalize = id\<rparr>"

text \<open>One registered user, no word in the tables, a CSV file that holds its header only.\<close>

definition exhausted_world :: world where
  "exhausted_world =
     \<lparr>tbl_users = [\<lparr>u_id = 1, u_telegram_user_id = 100, u_name = ''ann'', u_points = 0\<rparr>],
      tbl_word = [], tbl_users_word = [], word_seq = 0, users_word_seq = 0,
      csv_file = Some [[''russian'', ''english'']], rng = [], sent = [], next_step = []\<rparr>"

text \<open>Two shared words; the user has seen the first one four times.\<close>

definition pool_world :: world where
  "pool_world =
     \<lparr>tbl_users = [\<lparr>u_id = 1, u_telegram_user_id = 100, u_name = ''ann'', u_points = 0\<rparr>],
      tbl_word =
        [\<lparr>w_id = 1, w_user_id = None, w_russian_words = ''kot'', w_translation = ''cat''\<rparr>,
         \<lparr>w_id = 2, w_user_id = None, w_russian_words = ''dom'', w_translation = ''house''\<rparr>],
      tbl_users_word =
        [\<lparr>uw_id = 1, uw_user_id = 1, uw_word_id = Some 1, uw_times_shown = 4\<rparr>],
      word_seq = 2, users_word_seq = 1,
      csv_file = Some [[''russian'', ''english'']], rng = [], sent = [], next_step = []\<rparr>"

text \<open>
  As \<open>pool_world\<close>, with the mastered word \<open>kot\<close> also as a row of the CSV file.
\<close>

definition seen_world :: world where
  "seen_world =
     \<lparr>tbl_users = [\<lparr>u_id = 1, u_telegram_user_id = 100, u_name = ''ann'', u_points = 0\<rparr>],
      tbl_word =
        [\<lparr>w_id = 1, w_user_id = None, w_russian_words = ''kot'', w_translation = ''cat''\<rparr>,
         \<lparr>w_id = 2, w_user_id = None, w_russian_words = ''dom'', w_translation = ''house''\<rparr>],
      tbl_users_word =
        [\<lparr>uw_id = 1, uw_user_id = 1, uw_word_id = Some 1, uw_times_shown = 4\<rparr>],
      word_seq = 2, users_word_seq = 1,
      csv_file = Some [[''russian'', ''english''], [''kot'', ''cat'']],
      rng = [], sent = [], next_step = []\<rparr>"

text \<open>
  The term \<open>kot\<close> three times: as a word of the user, as a shared word and as a row of
  the CSV file, each with its own translation.
\<close>

definition merge_world :: world where
  "merge_world =
     \<lparr>tbl_users = [\<lparr>u_id = 1, u_telegram_user_id = 100, u_name = ''ann'', u_points = 0\<rparr>],
      tbl_word =
        [\<lparr>w_id = 1, w_user_id = Some 100, w_russian_words = ''kot'', w_translation = ''kitty''\<rparr>,
         \<lparr>w_id = 2, w_user_id = None, w_russian_words = ''kot'', w_translation = ''cat''\<rparr>,
         \<lparr>w_id = 3, w_user_id = None, w_russian_words = ''dom'', w_translation = ''house''\<rparr>,
         \<lparr>w_id = 4, w_user_id = None, w_russian_words = ''les'', w_translation = ''forest''\<rparr>],
      tbl_users_word = [], word_seq = 4, users_word_seq = 0,
      csv_file = Some [[''russian'', ''english''], [''kot'', ''tomcat'']],
      rng = [], sent = [], next_step = []\<rparr>"

text \<open>Four shared words, nothing shown yet; the generator chooses the general pool.\<close>

definition quiz_world :: world where
  "quiz_world =
     \<lparr>tbl_users = [\<lparr>u_id = 1, u_telegram_user_id = 100, u_name = ''ann'', u_points = 0\<rparr>],
      tbl_word =
        [\<lparr>w_id = 1, w_user_id = None, w_russian_words = ''kot'', w_translation = ''cat''\<rparr>,
         \<lparr>w_id = 2, w_user_id = None, w_russian_words = ''dom'', w_translation = ''house''\<rparr>,
         \<lparr>w_id = 3, w_user_id = None, w_russian_words = ''les'', w_translation = ''forest''\<rparr>,
         \<lparr>w_id = 4, w_user_id = None, w_russian_words = ''sad'', w_translation = ''garden''\<rparr>],
      tbl_users_word = [], word_seq = 4, users_word_seq = 0,
      csv_file = None, rng = [2], sent = [], next_step = []\<rparr>"

text \<open>One word of the user's own.\<close>

definition own_world :: world where
  "own_world =
     \<lparr>tbl_users = [\<lparr>u_id = 1, u_telegram_user_id = 100, u_name = ''ann'', u_points = 0\<rparr>],
      tbl_word =
        [\<lparr>w_id = 1, w_user_id = Some 100, w_russian_words = ''kot'', w_translation = ''cat''\<rparr>],
      tbl_users_word = [], word_seq = 1, users_word_seq = 0,
      csv_file = None, rng = [], sent = [], next_step = []\<rparr>"

text \<open>Five and six users; the table is not in the order of the points.\<close>

definition five_users :: world where
  "five_users =
     \<lparr>tbl_users =
        [\<lparr>u_id = 1, u_telegram_user_id = 201, u_name = ''ann'', u_points = 50\<rparr>,
         \<lparr>u_id = 2, u_telegram_user_id = 203, u_name = ''cid'', u_points = 30\<rparr>,
         \<lparr>u_id = 3, u_telegram_user_id = 202, u_name = ''bob'', u_points = 40\<rparr>,
         \<lparr>u_id = 4, u_telegram_user_id = 205, u_name = ''eve'', u_points = 10\<rparr>,
         \<lparr>u_id = 5, u_telegram_user_id = 204, u_name = ''dan'', u_points = 20\<rparr>],
      tbl_word = [], tbl_users_word = [], word_seq = 0, users_word_seq = 0,
      csv_file = None, rng = [], sent = [], next_step = []\<rparr>"

definition six_users :: world where
  "six_users =
     \<lparr>tbl_users =
        [\<lparr>u_id = 1, u_telegram_user_id = 101, u_name = ''ann'', u_points = 100\<rparr>,
         \<lparr>u_id = 2, u_telegram_user_id = 102, u_name = ''bob'', u_points = 90\<rparr>,
         \<lparr>u_id = 6, u_telegram_user_id = 106, u_name = ''fay'', u_points = 50\<rparr>,
         \<lparr>u_id = 3, u_telegram_user_id = 103, u_name = ''cid'', u_points = 80\<rparr>,
         \<lparr>u_id = 4, u_telegram_user_id = 104, u_name = ''dan'', u_points = 70\<rparr>,
         \<lparr>u_id = 5, u_telegram_user_id = 105, u_name = ''eve'', u_points = 60\<rparr>],
      tbl_word = [], tbl_users_word = [], word_seq = 0, users_word_seq = 0,
      csv_file = None, rng = [], sent = [], next_step = []\<rparr>"

text \<open>
  \<open>quiz_world\<close> after the first round was sent: the word \<open>kot\<close> is on the screen and
  \<open>check_answer\<close> waits for the reply.
\<close>

definition shown_world :: world where
  "shown_world =
     quiz_world
       \<lparr>rng := [],
        sent :=
          [\<lparr>sm_chat_id = 7, sm_text = txt_how_translate @ ''kot'' @ txt_how_translate_end,
            sm_reply_markup =
              Some [''house'', ''forest'', ''garden'', ''cat'', ''add'', ''del'', ''rating''],
            sm_parse_mode = Some ''HTML''\<rparr>],
        next_step := [(7, Check_answer (Some 1) ''cat'')]\<rparr>"


section \<open>Dictionaries and sampling\<close>

lemma sample_subset: "set (fst (sample rs pop k)) \<subseteq> set pop"
proof (induction rs pop k rule: sample.induct)
  case (3 rs p ps k)
  let ?i = "fst (draw rs) mod length (p # ps)"
  have i: "?i < length (p # ps)" by simp
  have "set (take ?i (p # ps) @ drop (Suc ?i) (p # ps)) \<subseteq> set (p # ps)"
    by (metis set_append Un_least set_take_subset set_drop_subset)
  moreover have "(p # ps) ! ?i \<in> set (p # ps)" using i nth_mem by blast
  ultimately show ?case using 3
    by (auto simp: Let_def simp del: nth_Cons' take_Cons' drop_Suc_Cons)
qed simp_all

lemma sample_length: "k \<le> length pop \<Longrightarrow> length (fst (sample rs pop k)) = k"
proof (induction rs pop k rule: sample.induct)
  case (3 rs p ps k)
  let ?i = "fst (draw rs) mod length (p # ps)"
  have i: "?i < length (p # ps)" by simp
  have "length (take ?i (p # ps) @ drop (Suc ?i) (p # ps)) = length ps"
    using i by (simp del: take_Cons' drop_Suc_Cons)
  then show ?case using 3 by (simp add: Let_def del: take_Cons' drop_Suc_Cons)
qed simp_all

lemma random_shuffle_Nil: "random_shuffle rs [] = ([], rs)"
  by (simp add: random_shuffle_def)

lemma dict_setitem_entries: "set (dict_setitem d k v) \<subseteq> insert (k, v) (set d)"
  by (induction d) (auto split: if_splits)

lemma dict_setitem_keys:
  "map fst (dict_setitem d k v) = (if k \<in> fst ` set d then map fst d else map fst d @ [k])"
  by (induction d) (auto simp: image_iff split: if_splits)

lemma dict_setitem_distinct:
  "distinct (map fst d) \<Longrightarrow> distinct (map fst (dict_setitem d k v))"
  by (simp add: dict_setitem_keys)

lemma dict_setitem_map_of: "map_of (dict_setitem d k v) = (map_of d)(k \<mapsto> v)"
  by (induction d) (auto simp: fun_eq_iff)

lemma dict_update_Nil: "dict_update d [] = d"
  by (simp add: dict_update_def)

lemma dict_update_Cons: "dict_update d ((k, v) # e) = dict_update (dict_setitem d k v) e"
  by (simp add: dict_update_def)

lemma dict_update_distinct:
  "distinct (map fst d) \<Longrightarrow> distinct (map fst (dict_update d e))"
  unfolding dict_update_def
  by (induction e arbitrary: d) (auto simp: dict_setitem_distinct)

text \<open>A key that the second dictionary lacks keeps its value.\<close>

lemma dict_update_other:
  "k \<notin> fst ` set e \<Longrightarrow> map_of (dict_update d e) k = map_of d k"
proof (induction e arbitrary: d)
  case Nil
  then show ?case by (simp add: dict_update_Nil)
next
  case (Cons x e)
  obtain k' v' where x: "x = (k', v')" by (cases x)
  with Cons.prems have "k \<noteq> k'" "k \<notin> fst ` set e" by auto
  with Cons.IH [of "dict_setitem d k' v'"] x show ?case
    by (simp add: dict_update_Cons dict_setitem_map_of)
qed

text \<open>An item of the second dictionary is an item of the result.\<close>

lemma dict_update_later:
  "distinct (map fst e) \<Longrightarrow> (k, v) \<in> set e \<Longrightarrow> map_of (dict_update d e) k = Some v"
proof (induction e arbitrary: d)
  case Nil
  then show ?case by simp
next
  case (Cons x e)
  obtain k' v' where x: "x = (k', v')" by (cases x)
  show ?case
  proof (cases "(k, v) = x")
    case True
    with x Cons.prems have "k \<notin> fst ` set e" by auto
    from dict_update_other [OF this, of "dict_setitem d k v"] True x show ?thesis
      by (simp add: dict_update_Cons dict_setitem_map_of)
  next
    case False
    with Cons.prems have "(k, v) \<in> set e" "distinct (map fst e)" by auto
    from Cons.IH [OF this(2) this(1), of "dict_setitem d k' v'"] x show ?thesis
      by (simp add: dict_update_Cons)
  qed
qed

text \<open>The keys of the first dictionary stay where they are.\<close>

lemma dict_update_keys_prefix: "\<exists>ks. map fst (dict_update d e) = map fst d @ ks"
proof (induction e arbitrary: d)
  case Nil
  then show ?case by (simp add: dict_update_Nil)
next
  case (Cons x e)
  obtain k v where x: "x = (k, v)" by (cases x)
  from Cons.IH [of "dict_setitem d k v"] obtain ks where
    "map fst (dict_update (dict_setitem d k v) e) = map fst (dict_setitem d k v) @ ks" by blast
  with x show ?case by (auto simp: dict_update_Cons dict_setitem_keys)
qed

lemma fold_setitem_entries:
  "(k, v) \<in> set (fold (\<lambda>w d. dict_setitem d (f w) (g w)) rows d0) \<Longrightarrow>
     (k, v) \<in> set d0 \<or> (\<exists>w \<in> set rows. k = f w \<and> v = g w)"
proof (induction rows arbitrary: d0)
  case Nil
  then show ?case by simp
next
  case (Cons r rows)
  from Cons.prems
  have "(k, v) \<in> set (fold (\<lambda>w d. dict_setitem d (f w) (g w)) rows (dict_setitem d0 (f r) (g r)))"
    by simp
  from Cons.IH [OF this] show ?case
    using dict_setitem_entries [of d0 "f r" "g r"] by auto
qed

lemma fold_setitem_distinct:
  "distinct (map fst d) \<Longrightarrow>
     distinct (map fst (fold (\<lambda>w acc. dict_setitem acc (f w) (g w)) rows d))"
  by (induction rows arbitrary: d) (auto simp: dict_setitem_distinct)

section \<open>Every source returns a dictionary with distinct keys\<close>

lemma get_random_words_distinct:
  "distinct (map fst (fst (get_random_words_for_user st user_id quantity flag)))"
  unfolding get_random_words_for_user_def Let_def fst_conv
  by (rule fold_setitem_distinct) simp

lemma csv_rows_loop_distinct:
  "distinct (map fst d) \<Longrightarrow> distinct (map fst (fst (snd (csv_rows_loop rows d st))))"
  by (induction rows d st rule: csv_rows_loop.induct)
     (auto simp: dict_setitem_distinct Let_def split: option.splits)

lemma csv_rows_loop_result_distinct:
  "csv_rows_loop rows [] st = (e, d, st1) \<Longrightarrow> distinct (map fst d)"
  using csv_rows_loop_distinct [of "[]" rows st] by simp

lemma csv_try_distinct:
  "csv_try st q = Raised d st1 \<Longrightarrow> distinct (map fst d)"
  "csv_try st q = Selected ws sel d st1 \<Longrightarrow> distinct (map fst d)"
  by (auto simp: csv_try_def split: option.splits prod.splits sum.splits
        dest: csv_rows_loop_result_distinct)

lemma sources_distinct:
  "(read_words_csv n st u q = Some (d, st') \<longrightarrow> distinct (map fst d)) \<and>
   (read_words_bd n st u q = Some (d, st') \<longrightarrow> distinct (map fst d))"
proof (induction n arbitrary: st u q d st')
  case 0
  then show ?case by simp
next
  case (Suc n)
  have csv: "distinct (map fst d)" if r: "read_words_csv (Suc n) st u q = Some (d, st')"
  proof (cases "csv_try st q")
    case (Raised wd st1)
    with r show ?thesis
      using csv_try_distinct(1) [OF Raised] dict_update_distinct
      by (auto split: option.splits)
  next
    case (Selected ws sel wd st1)
    with r show ?thesis
      using csv_try_distinct(2) [OF Selected] dict_update_distinct
      by (auto split: option.splits if_splits)
  qed
  have bd: "distinct (map fst d)" if r: "read_words_bd (Suc n) st u q = Some (d, st')"
    using r get_random_words_distinct [of st u q False] dict_update_distinct
    by (auto simp: Let_def split: option.splits if_splits)
  from csv bd show ?case by blast
qed

lemma read_words_bd_added_user_distinct:
  "read_words_bd_added_user n st u = Some (d, st') \<Longrightarrow> distinct (map fst d)"
  using get_random_words_distinct [of st u 4 True] dict_update_distinct sources_distinct
  by (auto simp: read_words_bd_added_user_def Let_def split: option.splits if_splits)

lemma select_source_distinct:
  "select_source n st msg = Some (d, st') \<Longrightarrow> distinct (map fst d)"
  using sources_distinct read_words_bd_added_user_distinct
  by (auto simp: select_source_def Let_def split: if_splits)


section \<open>Mastery\<close>

lemma word_status_mastered:
  "word_status times_shown = txt_mastered \<longleftrightarrow> (\<exists>t. times_shown = Some t \<and> 4 \<le> t)"
  by (cases times_shown) (auto simp: word_status_def txt_mastered_def txt_in_progress_def)

text \<open>Every entry that \<open>get_random_words_for_user\<close> returns comes from a row of
  \<open>word\<close> that passed the \<open>WHERE\<close> clause.\<close>

lemma get_random_words_rows:
  assumes "(wrd, (tr, wid)) \<in> set (fst (get_random_words_for_user st user_id quantity flag))"
  shows "\<exists>w \<in> set (tbl_word st).
           w_russian_words w = wrd \<and> w_translation w = tr \<and> w_id w = wid \<and>
           sql_not_in wid (mastered_word_ids st user_id) \<and>
           (if flag then w_user_id w = Some user_id else w_user_id w = None)"
proof -
  let ?sel = "filter (\<lambda>w. sql_not_in (w_id w) (mastered_word_ids st user_id) \<and>
                 (if flag then w_user_id w = Some user_id else w_user_id w = None)) (tbl_word st)"
  let ?rows = "take quantity (fst (random_shuffle (rng st) ?sel))"
  from assms
  have "(wrd, (tr, wid)) \<in> set (fold (\<lambda>words words_dict.
          dict_setitem words_dict (w_russian_words words) (w_translation words, w_id words))
          ?rows [])"
    by (simp add: get_random_words_for_user_def Let_def)
  from fold_setitem_entries [OF this]
  obtain w where w: "w \<in> set ?rows" "wrd = w_russian_words w"
      "(tr, wid) = (w_translation w, w_id w)"
    by auto
  have "set ?rows \<subseteq> set ?sel"
    using set_take_subset sample_subset unfolding random_shuffle_def by fast
  with w(1) have "w \<in> set ?sel" by blast
  with w(2,3) show ?thesis by auto
qed

lemma not_mastered_exposure:
  assumes "sql_not_in wid (mastered_word_ids st user_id)"
  shows "cumulative_exposure st user_id wid < 4"
proof (cases "filter (\<lambda>u. u_telegram_user_id u = user_id) (tbl_users st)")
  case Nil
  then show ?thesis by (simp add: cumulative_exposure_def search_user_def)
next
  case (Cons u us)
  let ?rows = "filter (\<lambda>r. uw_user_id r = u_id u) (tbl_users_word st)"
  let ?tot = "sum_list (map uw_times_shown (filter (\<lambda>r. uw_word_id r = Some wid) ?rows))"
  have ce: "cumulative_exposure st user_id wid = ?tot"
    using Cons by (simp add: cumulative_exposure_def search_user_def conj_commute)
  from assms Cons have nm: "\<not> (Some wid \<in> set (map uw_word_id ?rows) \<and> 4 \<le> ?tot)"
    by (auto simp: sql_not_in_def mastered_word_ids_def Let_def)
  show ?thesis
  proof (cases "Some wid \<in> set (map uw_word_id ?rows)")
    case True
    with nm ce show ?thesis by simp
  next
    case False
    then have "filter (\<lambda>r. uw_word_id r = Some wid) ?rows = []"
      by (force simp: filter_empty_conv image_iff)
    with ce show ?thesis by simp
  qed
qed

text \<open>A shuffle keeps every element, and the keys of a dictionary built from rows are
  the keys of the rows.\<close>

lemma sample_all_set: "k = length pop \<Longrightarrow> set (fst (sample rs pop k)) = set pop"
proof (induction rs pop k rule: sample.induct)
  case (3 rs p ps k)
  let ?pop = "p # ps"
  let ?i = "fst (draw rs) mod length ?pop"
  let ?rest = "take ?i ?pop @ drop (Suc ?i) ?pop"
  have i: "?i < length ?pop" by simp
  have pop: "?pop = take ?i ?pop @ ?pop ! ?i # drop (Suc ?i) ?pop"
    using i by (rule id_take_nth_drop)
  have "k = length ?rest" using i 3(2) by (simp del: take_Cons' drop_Suc_Cons)
  from 3(1) [OF refl this] have "set (fst (sample (snd (draw rs)) ?rest k)) = set ?rest" .
  moreover have "set ?pop = insert (?pop ! ?i) (set ?rest)"
    using pop by (metis Un_insert_right list.simps(15) set_append)
  ultimately show ?case by (simp add: Let_def del: take_Cons' drop_Suc_Cons nth_Cons')
qed simp_all

lemma fold_setitem_keys:
  "fst ` set (fold (\<lambda>w d. dict_setitem d (f w) (g w)) rows d0) = fst ` set d0 \<union> f ` set rows"
proof (induction rows arbitrary: d0)
  case Nil
  then show ?case by simp
next
  case (Cons r rows)
  have "fst ` set (dict_setitem d0 (f r) (g r)) = insert (f r) (fst ` set d0)"
    using dict_setitem_keys [of d0 "f r" "g r"]
    by (metis (no_types, lifting) Un_insert_right append_Nil2 insert_absorb list.simps(15)
        set_append set_map)
  with Cons.IH [of "dict_setitem d0 (f r) (g r)"] show ?case by auto
qed

text \<open>
  Without a NULL \<open>word_id\<close> in \<open>users_word\<close>, the \<open>NOT IN\<close> condition of the query is
  exactly a cumulative exposure below 4.
\<close>

lemma exposure_below_threshold:
  assumes nn: "\<forall>r \<in> set (tbl_users_word st). uw_word_id r \<noteq> None"
    and low: "cumulative_exposure st user_id wid < 4"
  shows "sql_not_in wid (mastered_word_ids st user_id)"
proof (cases "filter (\<lambda>u. u_telegram_user_id u = user_id) (tbl_users st)")
  case Nil
  then show ?thesis by (simp add: sql_not_in_def mastered_word_ids_def)
next
  case (Cons u us)
  let ?rows = "filter (\<lambda>r. uw_user_id r = u_id u) (tbl_users_word st)"
  let ?tot = "sum_list (map uw_times_shown (filter (\<lambda>r. uw_word_id r = Some wid) ?rows))"
  have "cumulative_exposure st user_id wid = ?tot"
    using Cons by (simp add: cumulative_exposure_def search_user_def conj_commute)
  with low have "\<not> 4 \<le> ?tot" by simp
  moreover have "None \<notin> set (map uw_word_id ?rows)" using nn by auto
  ultimately show ?thesis using Cons
    by (auto simp: sql_not_in_def mastered_word_ids_def Let_def)
qed

lemma candidates_eligible:
  assumes "\<forall>r \<in> set (tbl_users_word st). uw_word_id r \<noteq> None"
  shows "filter (\<lambda>w. sql_not_in (w_id w) (mastered_word_ids st user_id) \<and>
            (if flag then w_user_id w = Some user_id else w_user_id w = None)) (tbl_word st) =
         eligible_words st user_id flag"
  unfolding eligible_words_def
  using exposure_below_threshold [OF assms] not_mastered_exposure
  by (intro filter_cong refl) blast

lemma get_random_words_keys:
  assumes nn: "\<forall>r \<in> set (tbl_users_word st). uw_word_id r \<noteq> None"
    and len: "length (eligible_words st user_id flag) \<le> quantity"
  shows "fst ` set (fst (get_random_words_for_user st user_id quantity flag)) =
         w_russian_words ` set (eligible_words st user_id flag)"
proof -
  let ?el = "eligible_words st user_id flag"
  let ?sh = "fst (random_shuffle (rng st) ?el)"
  have set_sh: "set ?sh = set ?el"
    unfolding random_shuffle_def by (rule sample_all_set) simp
  have "length ?sh \<le> length ?el"
    unfolding random_shuffle_def using sample_length [of "length ?el" ?el "rng st"] by simp
  with len have "take quantity ?sh = ?sh" by simp
  then have "fst (get_random_words_for_user st user_id quantity flag) =
      fold (\<lambda>words words_dict.
              dict_setitem words_dict (w_russian_words words) (w_translation words, w_id words))
        ?sh []"
    by (simp add: get_random_words_for_user_def Let_def candidates_eligible [OF nn])
  then show ?thesis
    using fold_setitem_keys [of w_russian_words "\<lambda>w. (w_translation w, w_id w)" ?sh "[]"] set_sh
    by simp
qed

text \<open>The loop over the rows of the CSV file does not read \<open>users_word\<close>.\<close>

lemma csv_rows_loop_ignores_exposure:
  "csv_rows_loop rows d (st\<lparr>tbl_users_word := uw\<rparr>) =
     (fst (csv_rows_loop rows d st), fst (snd (csv_rows_loop rows d st)),
      (snd (snd (csv_rows_loop rows d st)))\<lparr>tbl_users_word := uw\<rparr>)"
proof (induction rows d st rule: csv_rows_loop.induct)
  case (4 w0 w1 ws rest words_dict st)
  have sw: "search_word (st\<lparr>tbl_users_word := uw\<rparr>) w0 None = search_word st w0 None"
    by (simp add: search_word_def)
  have sv: "save_word (st\<lparr>tbl_users_word := uw\<rparr>) w0 w1 None =
      (fst (save_word st w0 w1 None), (snd (save_word st w0 w1 None))\<lparr>tbl_users_word := uw\<rparr>)"
    by (simp add: save_word_def Let_def)
  show ?case
  proof (cases "search_word st w0 None")
    case None
    with 4(1) [OF None refl] sw sv show ?thesis by (simp add: Let_def)
  next
    case (Some id_word)
    with 4(2) [OF Some] sw show ?thesis by simp
  qed
qed simp_all

text \<open>The sources in \<open>seen_world\<close>, call by call.\<close>

lemma seen_world_pool:
  "0 < q \<Longrightarrow> get_random_words_for_user seen_world 100 q False =
     ([(''dom'', (''house'', 2))], seen_world)"
  by (cases q)
     (simp_all add: get_random_words_for_user_def seen_world_def mastered_word_ids_def
        sql_not_in_def random_shuffle_def draw_def)

lemma seen_world_own:
  "get_random_words_for_user seen_world 100 q True = ([], seen_world)"
  by (simp add: get_random_words_for_user_def seen_world_def mastered_word_ids_def
        sql_not_in_def random_shuffle_def)

lemma seen_world_csv_try:
  "0 < q \<Longrightarrow> csv_try seen_world q =
     Selected [[''russian'', ''english''], [''kot'', ''cat'']] [[''kot'', ''cat'']]
       [(''kot'', (''cat'', 1))] seen_world"
  by (cases q)
     (simp_all add: csv_try_def seen_world_def random_sample_def draw_def search_word_def)

lemma seen_world_bd1:
  "read_words_bd (Suc n) seen_world 100 (Suc 0) = Some ([(''dom'', (''house'', 2))], seen_world)"
  by (subst read_words_bd.simps)
     (simp add: seen_world_pool del: read_words_csv.simps read_words_bd.simps)

lemma seen_world_csv1:
  "read_words_csv (Suc n) seen_world 100 (Suc 0) =
     Some ([(''kot'', (''cat'', 1))], seen_world\<lparr>csv_file := Some [[''russian'', ''english'']]\<rparr>)"
  by (subst read_words_csv.simps)
     (simp add: seen_world_csv_try del: read_words_csv.simps read_words_bd.simps)

lemma seen_world_csv2:
  "read_words_csv (Suc (Suc n)) seen_world 100 2 =
     Some ([(''kot'', (''cat'', 1)), (''dom'', (''house'', 2))],
           seen_world\<lparr>csv_file := Some [[''russian'', ''english'']]\<rparr>)"
  by (subst read_words_csv.simps)
     (simp add: seen_world_csv_try seen_world_bd1 dict_update_def
        del: read_words_csv.simps read_words_bd.simps)

lemma seen_world_bd2:
  "read_words_bd (Suc (Suc n)) seen_world 100 2 =
     Some ([(''dom'', (''house'', 2)), (''kot'', (''cat'', 1))],
           seen_world\<lparr>csv_file := Some [[''russian'', ''english'']]\<rparr>)"
  by (subst read_words_bd.simps)
     (simp add: seen_world_pool seen_world_csv1 dict_update_def
        del: read_words_csv.simps read_words_bd.simps)

lemma seen_world_bd3:
  "read_words_bd (Suc (Suc (Suc n))) seen_world 100 3 =
     Some ([(''dom'', (''house'', 2)), (''kot'', (''cat'', 1))],
           seen_world\<lparr>csv_file := Some [[''russian'', ''english'']]\<rparr>)"
  by (subst read_words_bd.simps)
     (simp add: seen_world_pool seen_world_csv2 dict_update_def
        del: read_words_csv.simps read_words_bd.simps)

lemma seen_world_csv3:
  "read_words_csv (Suc (Suc (Suc n))) seen_world 100 3 =
     Some ([(''kot'', (''cat'', 1)), (''dom'', (''house'', 2))],
           seen_world\<lparr>csv_file := Some [[''russian'', ''english'']]\<rparr>)"
  by (subst read_words_csv.simps)
     (simp add: seen_world_csv_try seen_world_bd2 dict_update_def
        del: read_words_csv.simps read_words_bd.simps)

lemma seen_world_sources:
  "cumulative_exposure seen_world 100 1 = 4"
  "map_option fst (read_words_csv 4 seen_world 100 4) =
     Some [(''kot'', (''cat'', 1)), (''dom'', (''house'', 2))]"
  "map_option fst (read_words_bd 4 seen_world 100 4) =
     Some [(''dom'', (''house'', 2)), (''kot'', (''cat'', 1))]"
  "map_option fst (read_words_bd_added_user 4 seen_world 100) =
     Some [(''dom'', (''house'', 2)), (''kot'', (''cat'', 1))]"
  "map_option (map_sum id fst)
     (word_generator 4 seen_world \<lparr>chat_id = 7, from_user_id = 100, m_text = ''go''\<rparr>) =
     Some (Inr (''kot'', ''cat'', [''house''], Some 1))"
proof -
  have four: "(4::nat) = Suc (Suc (Suc (Suc 0)))" by simp
  have csv4: "read_words_csv (Suc (Suc (Suc (Suc 0)))) seen_world 100 4 =
     Some ([(''kot'', (''cat'', 1)), (''dom'', (''house'', 2))],
           seen_world\<lparr>csv_file := Some [[''russian'', ''english'']]\<rparr>)"
    by (subst read_words_csv.simps)
       (simp add: seen_world_csv_try seen_world_bd3 dict_update_def
          del: read_words_csv.simps read_words_bd.simps)
  have bd4: "read_words_bd (Suc (Suc (Suc (Suc 0)))) seen_world 100 4 =
     Some ([(''dom'', (''house'', 2)), (''kot'', (''cat'', 1))],
           seen_world\<lparr>csv_file := Some [[''russian'', ''english'']]\<rparr>)"
    by (subst read_words_bd.simps)
       (simp add: seen_world_pool seen_world_csv3 dict_update_def
          del: read_words_csv.simps read_words_bd.simps)
  show "cumulative_exposure seen_world 100 1 = 4"
    by (simp add: cumulative_exposure_def search_user_def seen_world_def)
  show "map_option fst (read_words_csv 4 seen_world 100 4) =
     Some [(''kot'', (''cat'', 1)), (''dom'', (''house'', 2))]"
    using csv4 by (simp add: four del: read_words_csv.simps read_words_bd.simps)
  show b: "map_option fst (read_words_bd 4 seen_world 100 4) =
     Some [(''dom'', (''house'', 2)), (''kot'', (''cat'', 1))]"
    using bd4 by (simp add: four del: read_words_csv.simps read_words_bd.simps)
  show "map_option fst (read_words_bd_added_user 4 seen_world 100) =
     Some [(''dom'', (''house'', 2)), (''kot'', (''cat'', 1))]"
    unfolding read_words_bd_added_user_def seen_world_own Let_def fst_conv snd_conv
    using bd4 by (simp add: four dict_update_def del: read_words_csv.simps read_words_bd.simps)
  have st0: "seen_world\<lparr>rng := snd (random_randint_0_2 (rng seen_world))\<rparr> = seen_world"
    "fst (random_randint_0_2 (rng seen_world)) = 0"
    by (simp_all add: random_randint_0_2_def draw_def seen_world_def)
  show "map_option (map_sum id fst)
     (word_generator 4 seen_world \<lparr>chat_id = 7, from_user_id = 100, m_text = ''go''\<rparr>) =
     Some (Inr (''kot'', ''cat'', [''house''], Some 1))"
    unfolding word_generator_def select_source_def Let_def st0
    using csv4 by (simp add: four del: read_words_csv.simps read_words_bd.simps)
qed

text \<open>
  Claim C2, as stated: the threshold governs which words are eligible for selection in the
  word sources, words with cumulative exposure of 4 or more for the user being excluded.
  It fails in \<open>seen_world\<close>: the user 100 has seen the word 1 (\<open>kot\<close>) four times, the
  CSV file has the row \<open>kot, cat\<close>, and all three sources return the word 1;
  \<open>word_generator\<close> serves it as the word of the round.
\<close>

theorem mastered_threshold_counterexample:
  "cumulative_exposure seen_world 100 1 = 4 \<and>
   map_option fst (read_words_csv 4 seen_world 100 4) =
     Some [(''kot'', (''cat'', 1)), (''dom'', (''house'', 2))] \<and>
   map_option fst (read_words_bd 4 seen_world 100 4) =
     Some [(''dom'', (''house'', 2)), (''kot'', (''cat'', 1))] \<and>
   map_option fst (read_words_bd_added_user 4 seen_world 100) =
     Some [(''dom'', (''house'', 2)), (''kot'', (''cat'', 1))] \<and>
   map_option (map_sum id fst)
     (word_generator 4 seen_world \<lparr>chat_id = 7, from_user_id = 100, m_text = ''go''\<rparr>) =
     Some (Inr (''kot'', ''cat'', [''house''], Some 1))"
  using seen_world_sources by (intro conjI)

text \<open>
  Claim C2, amended. A word is shown as mastered exactly when its \<open>times_shown\<close> is defined
  and at least 4, and an undefined \<open>times_shown\<close> counts as in progress. The same threshold
  governs the database query \<open>get_random_words_for_user\<close> behind the user-owned and the
  general-pool source: every entry it returns is a row of \<open>word\<close> of the asked owner with
  a cumulative exposure below 4 for the user, and (no \<open>word_id\<close> of \<open>users_word\<close> being
  NULL) when the limit does not cut, the terms it returns are exactly the terms of the
  rows of the asked owner with a cumulative exposure below 4. The rows of the CSV file,
  in the bulk source and in every top-up from it, become entries without a look at
  \<open>users_word\<close>.
\<close>

theorem mastered_threshold:
  "(word_status times_shown = txt_mastered \<longleftrightarrow> (\<exists>t. times_shown = Some t \<and> 4 \<le> t)) \<and>
   word_status None = txt_in_progress \<and>
   (\<forall>wrd tr wid.
      (wrd, (tr, wid)) \<in> set (fst (get_random_words_for_user st user_id quantity flag)) \<longrightarrow>
        (\<exists>w \<in> set (tbl_word st).
           w_russian_words w = wrd \<and> w_translation w = tr \<and> w_id w = wid \<and>
           (if flag then w_user_id w = Some user_id else w_user_id w = None) \<and>
           cumulative_exposure st user_id wid < 4)) \<and>
   ((\<forall>r \<in> set (tbl_users_word st). uw_word_id r \<noteq> None) \<and>
    length (eligible_words st user_id flag) \<le> quantity \<longrightarrow>
      fst ` set (fst (get_random_words_for_user st user_id quantity flag)) =
      w_russian_words ` set (eligible_words st user_id flag)) \<and>
   fst (csv_rows_loop rows d (st\<lparr>tbl_users_word := uw\<rparr>)) = fst (csv_rows_loop rows d st) \<and>
   fst (snd (csv_rows_loop rows d (st\<lparr>tbl_users_word := uw\<rparr>))) =
     fst (snd (csv_rows_loop rows d st))"
proof (intro conjI allI impI)
  show "word_status times_shown = txt_mastered \<longleftrightarrow> (\<exists>t. times_shown = Some t \<and> 4 \<le> t)"
    by (rule word_status_mastered)
  show "word_status None = txt_in_progress" by (simp add: word_status_def)
next
  fix wrd tr wid
  assume "(wrd, (tr, wid)) \<in> set (fst (get_random_words_for_user st user_id quantity flag))"
  from get_random_words_rows [OF this] obtain w where
    "w \<in> set (tbl_word st)" "w_russian_words w = wrd" "w_translation w = tr" "w_id w = wid"
    "sql_not_in wid (mastered_word_ids st user_id)"
    "if flag then w_user_id w = Some user_id else w_user_id w = None"
    by blast
  with not_mastered_exposure [of wid st user_id]
  show "\<exists>w \<in> set (tbl_word st).
           w_russian_words w = wrd \<and> w_translation w = tr \<and> w_id w = wid \<and>
           (if flag then w_user_id w = Some user_id else w_user_id w = None) \<and>
           cumulative_exposure st user_id wid < 4"
    by blast
next
  assume "(\<forall>r \<in> set (tbl_users_word st). uw_word_id r \<noteq> None) \<and>
    length (eligible_words st user_id flag) \<le> quantity"
  then show "fst ` set (fst (get_random_words_for_user st user_id quantity flag)) =
      w_russian_words ` set (eligible_words st user_id flag)"
    using get_random_words_keys by blast
next
  show "fst (csv_rows_loop rows d (st\<lparr>tbl_users_word := uw\<rparr>)) = fst (csv_rows_loop rows d st)"
    by (simp add: csv_rows_loop_ignores_exposure)
  show "fst (snd (csv_rows_loop rows d (st\<lparr>tbl_users_word := uw\<rparr>))) =
     fst (snd (csv_rows_loop rows d st))"
    by (simp add: csv_rows_loop_ignores_exposure)
qed

text \<open>
  In \<open>pool_world\<close> the word 1 has been shown four times and the word 2 never: the query
  returns the word 2 and only it, and the loop over a CSV row of the word 1 gives the same
  entry with and without the exposure rows.
\<close>

theorem mastered_threshold_witness:
  "word_status (Some 4) = txt_mastered \<and>
   word_status (Some 3) \<noteq> txt_mastered \<and>
   cumulative_exposure pool_world 100 1 = 4 \<and>
   cumulative_exposure pool_world 100 2 < 4 \<and>
   fst ` set (fst (get_random_words_for_user pool_world 100 4 False)) = {''dom''} \<and>
   fst (snd (csv_rows_loop [[''kot'', ''cat'']] [] (pool_world\<lparr>tbl_users_word := []\<rparr>))) =
     [(''kot'', (''cat'', 1))] \<and>
   fst (snd (csv_rows_loop [[''kot'', ''cat'']] [] pool_world)) = [(''kot'', (''cat'', 1))]"
proof -
  note t4 = mastered_threshold [of "Some 4" pool_world 100 4 False "[[''kot'', ''cat'']]" "[]" "[]"]
  note t3 = mastered_threshold [of "Some 3" pool_world 100 4 False "[[''kot'', ''cat'']]" "[]" "[]"]
  have r: "(''dom'', (''house'', 2)) \<in> set (fst (get_random_words_for_user pool_world 100 4 False))"
    by (simp add: get_random_words_for_user_def pool_world_def mastered_word_ids_def
          sql_not_in_def random_shuffle_def draw_def)
  have e: "cumulative_exposure pool_world 100 1 = 4"
    by (simp add: cumulative_exposure_def search_user_def pool_world_def)
  have el: "eligible_words pool_world 100 False =
      [\<lparr>w_id = 2, w_user_id = None, w_russian_words = ''dom'', w_translation = ''house''\<rparr>]"
    by (simp add: eligible_words_def cumulative_exposure_def search_user_def pool_world_def)
  have pre: "(\<forall>r \<in> set (tbl_users_word pool_world). uw_word_id r \<noteq> None) \<and>
      length (eligible_words pool_world 100 False) \<le> 4"
    by (simp add: el) (simp add: pool_world_def)
  have loop: "fst (snd (csv_rows_loop [[''kot'', ''cat'']] [] pool_world)) = [(''kot'', (''cat'', 1))]"
    by (simp add: search_word_def pool_world_def)
  from t4 have m4: "word_status (Some 4) = txt_mastered" by simp
  from t3 have m3: "word_status (Some 3) \<noteq> txt_mastered" by simp
  from t4 [THEN conjunct2, THEN conjunct2, THEN conjunct1] r
  have low: "cumulative_exposure pool_world 100 2 < 4" by blast
  from t4 [THEN conjunct2, THEN conjunct2, THEN conjunct2, THEN conjunct1, THEN mp, OF pre]
  have keys: "fst ` set (fst (get_random_words_for_user pool_world 100 4 False)) = {''dom''}"
    by (simp add: el)
  from t4 [THEN conjunct2, THEN conjunct2, THEN conjunct2, THEN conjunct2, THEN conjunct2] loop
  have same: "fst (snd (csv_rows_loop [[''kot'', ''cat'']] []
      (pool_world\<lparr>tbl_users_word := []\<rparr>))) = [(''kot'', (''cat'', 1))]"
    by simp
  from m4 m3 e low keys same loop show ?thesis by (intro conjI)
qed

section \<open>Recording an exposure\<close>

lemma map_update_pk:
  assumes "distinct (map f xs)" and "i < length xs"
  shows "map (\<lambda>x. if f x = f (xs ! i) then g x else x) xs = xs[i := g (xs ! i)]"
proof (rule nth_equalityI)
  show "length (map (\<lambda>x. if f x = f (xs ! i) then g x else x) xs) = length (xs[i := g (xs ! i)])"
    by simp
next
  fix j assume "j < length (map (\<lambda>x. if f x = f (xs ! i) then g x else x) xs)"
  then have j: "j < length xs" by simp
  show "map (\<lambda>x. if f x = f (xs ! i) then g x else x) xs ! j = xs[i := g (xs ! i)] ! j"
  proof (cases "j = i")
    case True
    with j show ?thesis by simp
  next
    case False
    with assms j have "f (xs ! j) \<noteq> f (xs ! i)"
      by (metis distinct_conv_nth length_map nth_map)
    with j False show ?thesis by simp
  qed
qed

lemma filter_hd_index:
  assumes "filter P xs = r # rs"
  shows "\<exists>i < length xs. xs ! i = r \<and> P r"
proof -
  from assms have "r \<in> set (filter P xs)" by simp
  then have "r \<in> set xs" "P r" by auto
  then show ?thesis by (auto simp: in_set_conv_nth)
qed

text \<open>A Telegram id without a row in \<open>users\<close> makes the call raise.\<close>

lemma update_times_shown_unregistered:
  "search_user st telegram_user_id = None \<Longrightarrow>
     update_times_shown st telegram_user_id word_id = Inl IndexError"
  by (auto simp: search_user_def update_times_shown_def split: list.splits)

text \<open>
  Claim C5. For a registered user (the primary key of \<open>users_word\<close> being unique), one
  call of \<open>update_times_shown\<close> either adds exactly 1 to the \<open>times_shown\<close> of one
  existing row of the user and the word and changes nothing else, or, when there is no
  such row, appends one row with \<open>times_shown = 1\<close> for the user's internal id and the
  word and changes nothing else but the sequence of the table.
\<close>

theorem update_times_shown_effect:
  assumes pk: "distinct (map uw_id (tbl_users_word st))"
    and reg: "search_user st telegram_user_id = Some (uid, nm, pts)"
  shows "if \<exists>r \<in> set (tbl_users_word st). uw_word_id r = Some word_id \<and> uw_user_id r = uid
         then \<exists>i < length (tbl_users_word st).
                uw_word_id (tbl_users_word st ! i) = Some word_id \<and>
                uw_user_id (tbl_users_word st ! i) = uid \<and>
                update_times_shown st telegram_user_id (Some word_id) =
                  Inr (st\<lparr>tbl_users_word := (tbl_users_word st)
                            [i := (tbl_users_word st ! i)
                                    \<lparr>uw_times_shown := uw_times_shown (tbl_users_word st ! i) + 1\<rparr>]\<rparr>)
         else update_times_shown st telegram_user_id (Some word_id) =
                Inr (st\<lparr>tbl_users_word := tbl_users_word st @
                          [\<lparr>uw_id = users_word_seq st + 1, uw_user_id = uid,
                            uw_word_id = Some word_id, uw_times_shown = 1\<rparr>],
                        users_word_seq := users_word_seq st + 1\<rparr>)"
proof -
  from reg obtain u us where
    us: "filter (\<lambda>u. u_telegram_user_id u = telegram_user_id) (tbl_users st) = u # us"
    and uid: "u_id u = uid"
    by (auto simp: search_user_def split: list.splits)
  let ?P = "\<lambda>r. uw_word_id r = Some word_id \<and> uw_user_id r = uid"
  let ?rows = "tbl_users_word st"
  show ?thesis
  proof (cases "filter ?P ?rows")
    case Nil
    then have no: "\<not> (\<exists>r \<in> set ?rows. ?P r)" by (simp add: filter_empty_conv)
    from Nil us uid have
      "update_times_shown st telegram_user_id (Some word_id) =
         Inr (st\<lparr>tbl_users_word := ?rows @
                   [\<lparr>uw_id = users_word_seq st + 1, uw_user_id = uid,
                     uw_word_id = Some word_id, uw_times_shown = 1\<rparr>],
                 users_word_seq := users_word_seq st + 1\<rparr>)"
      by (simp add: update_times_shown_def)
    with no show ?thesis by (simp only: if_False)
  next
    case (Cons r rs)
    from filter_hd_index [OF Cons] obtain i where
      i: "i < length ?rows" "?rows ! i = r" "?P r" by blast
    then have ex: "\<exists>r \<in> set ?rows. ?P r" using nth_mem by blast
    from Cons us uid have
      "update_times_shown st telegram_user_id (Some word_id) =
         Inr (st\<lparr>tbl_users_word :=
                   map (\<lambda>x. if uw_id x = uw_id r
                             then x\<lparr>uw_times_shown := uw_times_shown x + 1\<rparr> else x) ?rows\<rparr>)"
      by (simp add: update_times_shown_def)
    also have "map (\<lambda>x. if uw_id x = uw_id r
                         then x\<lparr>uw_times_shown := uw_times_shown x + 1\<rparr> else x) ?rows
               = ?rows[i := (?rows ! i)\<lparr>uw_times_shown := uw_times_shown (?rows ! i) + 1\<rparr>]"
      using map_update_pk [OF pk, of i "\<lambda>x. x\<lparr>uw_times_shown := uw_times_shown x + 1\<rparr>"] i
      by simp
    finally have "update_times_shown st telegram_user_id (Some word_id) =
         Inr (st\<lparr>tbl_users_word :=
           ?rows[i := (?rows ! i)\<lparr>uw_times_shown := uw_times_shown (?rows ! i) + 1\<rparr>]\<rparr>)" .
    with i ex show ?thesis by (simp only: if_True) blast
  qed
qed

text \<open>
  In \<open>pool_world\<close> the user 100 has a row for the word 1, which goes from 4 to 5, and
  none for the word 2, which gets a new row with the count 1.
\<close>

theorem update_times_shown_effect_witness:
  "distinct (map uw_id (tbl_users_word pool_world)) \<and>
   search_user pool_world 100 = Some (1, ''ann'', 0) \<and>
   update_times_shown pool_world 100 (Some 1) =
     Inr (pool_world\<lparr>tbl_users_word :=
            [\<lparr>uw_id = 1, uw_user_id = 1, uw_word_id = Some 1, uw_times_shown = 5\<rparr>]\<rparr>) \<and>
   update_times_shown pool_world 100 (Some 2) =
     Inr (pool_world\<lparr>tbl_users_word :=
            [\<lparr>uw_id = 1, uw_user_id = 1, uw_word_id = Some 1, uw_times_shown = 4\<rparr>,
             \<lparr>uw_id = 2, uw_user_id = 1, uw_word_id = Some 2, uw_times_shown = 1\<rparr>],
          users_word_seq := 2\<rparr>)"
proof -
  have pk: "distinct (map uw_id (tbl_users_word pool_world))"
    by (simp add: pool_world_def)
  have reg: "search_user pool_world 100 = Some (1, ''ann'', 0)"
    by (simp add: search_user_def pool_world_def)
  have rows: "tbl_users_word pool_world =
      [\<lparr>uw_id = 1, uw_user_id = 1, uw_word_id = Some 1, uw_times_shown = 4\<rparr>]"
    "users_word_seq pool_world = 1"
    by (simp_all add: pool_world_def)
  from update_times_shown_effect [OF pk reg, of 1]
  have one: "update_times_shown pool_world 100 (Some 1) =
     Inr (pool_world\<lparr>tbl_users_word :=
            [\<lparr>uw_id = 1, uw_user_id = 1, uw_word_id = Some 1, uw_times_shown = 5\<rparr>]\<rparr>)"
    by (simp add: rows)
  from update_times_shown_effect [OF pk reg, of 2]
  have two: "update_times_shown pool_world 100 (Some 2) =
     Inr (pool_world\<lparr>tbl_users_word :=
            [\<lparr>uw_id = 1, uw_user_id = 1, uw_word_id = Some 1, uw_times_shown = 4\<rparr>,
             \<lparr>uw_id = 2, uw_user_id = 1, uw_word_id = Some 2, uw_times_shown = 1\<rparr>],
          users_word_seq := 2\<rparr>)"
    by (simp add: rows)
  from pk reg one two show ?thesis by simp
qed


section \<open>The rating view\<close>

lemma user_position_of_found:
  "user_position_of xs t idx = Some p \<Longrightarrow>
     idx < p \<and> p \<le> idx + length xs \<and> r_telegram_user_id (xs ! (p - idx - 1)) = t"
proof (induction xs arbitrary: idx)
  case Nil
  then show ?case by simp
next
  case (Cons x xs)
  show ?case
  proof (cases "r_telegram_user_id x = t")
    case True
    with Cons.prems show ?thesis by auto
  next
    case False
    with Cons.prems have "user_position_of xs t (idx + 1) = Some p" by simp
    from Cons.IH [OF this] show ?thesis
      by (auto simp: nth_Cons' Suc_diff_Suc)
  qed
qed

lemma get_medal_cases:
  "get_medal 1 = medal_gold" "get_medal 2 = medal_silver" "get_medal 3 = medal_bronze"
  "n \<notin> {1, 2, 3} \<Longrightarrow> get_medal n = str_nat n @ ''.''"
  by (auto simp: get_medal_def)

lemma long_list:
  assumes "3 \<le> length xs"
  shows "\<exists>a b c ys. xs = a # b # c # ys"
  using assms by (metis Suc_le_length_iff numeral_3_eq_3)

lemma str_examples:
  "str_int 100 = ''100''" "str_int 90 = ''90''" "str_int 80 = ''80''" "str_int 50 = ''50''"
  "str_int 40 = ''40''" "str_int 30 = ''30''" "str_nat 6 = ''6''"
  by (simp_all add: str_int_def str_nat.simps digit_char_def)

lemma five_users_ratings:
  "get_player_ratings five_users =
     [\<lparr>r_telegram_user_id = 201, r_name = ''ann'', r_points = 50\<rparr>,
      \<lparr>r_telegram_user_id = 202, r_name = ''bob'', r_points = 40\<rparr>,
      \<lparr>r_telegram_user_id = 203, r_name = ''cid'', r_points = 30\<rparr>,
      \<lparr>r_telegram_user_id = 204, r_name = ''dan'', r_points = 20\<rparr>,
      \<lparr>r_telegram_user_id = 205, r_name = ''eve'', r_points = 10\<rparr>]"
  by (simp add: get_player_ratings_def five_users_def)

lemma six_users_ratings:
  "get_player_ratings six_users =
     [\<lparr>r_telegram_user_id = 101, r_name = ''ann'', r_points = 100\<rparr>,
      \<lparr>r_telegram_user_id = 102, r_name = ''bob'', r_points = 90\<rparr>,
      \<lparr>r_telegram_user_id = 103, r_name = ''cid'', r_points = 80\<rparr>,
      \<lparr>r_telegram_user_id = 104, r_name = ''dan'', r_points = 70\<rparr>,
      \<lparr>r_telegram_user_id = 105, r_name = ''eve'', r_points = 60\<rparr>,
      \<lparr>r_telegram_user_id = 106, r_name = ''fay'', r_points = 50\<rparr>]"
  by (simp add: get_player_ratings_def six_users_def)

text \<open>
  Claim C7, as stated: for a requester ranked second of five, the view has exactly two
  entries, the second one in bold. It fails in \<open>five_users\<close> for the user 202: the
  view has three lines, and it is not the text of the first two entries.
\<close>

theorem rating_second_of_five_counterexample:
  "user_position_of (get_player_ratings five_users) 202 0 = Some 2 \<and>
   length (get_player_ratings five_users) = 5 \<and>
   count_list (display_player_rating five_users 202) (CHR 0x0A) = 3 \<and>
   display_player_rating five_users 202 \<noteq>
     format_rating_entry 2 1 \<lparr>r_telegram_user_id = 201, r_name = ''ann'', r_points = 50\<rparr> @
     format_rating_entry 2 2 \<lparr>r_telegram_user_id = 202, r_name = ''bob'', r_points = 40\<rparr>"
  by (simp add: display_player_rating_def five_users_ratings format_rating_entry_def
        get_medal_def str_examples medal_gold_def medal_silver_def medal_bronze_def
        txt_points_def)

text \<open>
  Claim C7, amended. For a requester ranked second of five, \<open>display_player_rating\<close>
  returns exactly three entries, the ranks 1 to 3 with their medals, and the second
  entry, the requester's own, is the one in bold.
\<close>

theorem rating_second_of_five:
  assumes "get_player_ratings st = [u1, u2, u3, u4, u5]"
    and "r_telegram_user_id u1 \<noteq> telegram_user_id"
    and "r_telegram_user_id u2 = telegram_user_id"
  shows "display_player_rating st telegram_user_id =
           medal_gold @ '' '' @ r_name u1 @ '' - '' @ [CHR 0x22] @ str_int (r_points u1) @
             txt_points @ [CHR 0x0A] @
           ''<b>'' @ medal_silver @ '' '' @ r_name u2 @ '' - '' @ [CHR 0x22] @
             str_int (r_points u2) @ txt_points @ ''</b>'' @ [CHR 0x0A] @
           medal_bronze @ '' '' @ r_name u3 @ '' - '' @ [CHR 0x22] @ str_int (r_points u3) @
             txt_points @ [CHR 0x0A]"
  using assms
  by (simp add: display_player_rating_def format_rating_entry_def get_medal_def)

theorem rating_second_of_five_witness:
  "display_player_rating five_users 202 =
     medal_gold @ '' ann - '' @ [CHR 0x22] @ ''50'' @ txt_points @ [CHR 0x0A] @
     ''<b>'' @ medal_silver @ '' bob - '' @ [CHR 0x22] @ ''40'' @ txt_points @ ''</b>'' @
       [CHR 0x0A] @
     medal_bronze @ '' cid - '' @ [CHR 0x22] @ ''30'' @ txt_points @ [CHR 0x0A]"
  using rating_second_of_five [OF five_users_ratings, of 202]
  by (simp add: str_examples)

text \<open>
  Claim C8. For a requester whose place is 6 or lower, \<open>display_player_rating\<close>
  returns the first three entries with the medals of \<open>_get_medal\<close> (1, 2 and 3 give the
  three medal glyphs, any other number gives the number and a period), then the line
  \<open>...\<close>, then one last entry in bold: the requester's place, name and points.
\<close>

theorem rating_beyond_fifth:
  assumes pos: "user_position_of (get_player_ratings st) telegram_user_id 0 = Some p"
    and far: "6 \<le> p"
  shows "get_medal 1 = medal_gold \<and> get_medal 2 = medal_silver \<and> get_medal 3 = medal_bronze \<and>
         (\<forall>n. n \<notin> {1, 2, 3} \<longrightarrow> get_medal n = str_nat n @ ''.'') \<and>
         (\<exists>u1 u2 u3 others me.
            get_player_ratings st = u1 # u2 # u3 # others \<and>
            me = get_player_ratings st ! (p - 1) \<and>
            r_telegram_user_id me = telegram_user_id \<and>
            display_player_rating st telegram_user_id =
              medal_gold @ '' '' @ r_name u1 @ '' - '' @ [CHR 0x22] @ str_int (r_points u1) @
                txt_points @ [CHR 0x0A] @
              medal_silver @ '' '' @ r_name u2 @ '' - '' @ [CHR 0x22] @ str_int (r_points u2) @
                txt_points @ [CHR 0x0A] @
              medal_bronze @ '' '' @ r_name u3 @ '' - '' @ [CHR 0x22] @ str_int (r_points u3) @
                txt_points @ [CHR 0x0A] @
              ''...'' @ [CHR 0x0A] @
              ''<b>'' @ [CHR 0x09] @ str_nat p @ ''.'' @ r_name me @ '' - '' @ [CHR 0x22] @
                str_int (r_points me) @ txt_points @ ''</b>'')"
proof -
  let ?rd = "get_player_ratings st"
  from user_position_of_found [OF pos]
  have len: "p \<le> length ?rd" and me: "r_telegram_user_id (?rd ! (p - 1)) = telegram_user_id"
    by simp_all
  from len far obtain u1 u2 u3 others where rd: "?rd = u1 # u2 # u3 # others"
    using long_list [of ?rd] by auto
  have "display_player_rating st telegram_user_id =
          medal_gold @ '' '' @ r_name u1 @ '' - '' @ [CHR 0x22] @ str_int (r_points u1) @
            txt_points @ [CHR 0x0A] @
          medal_silver @ '' '' @ r_name u2 @ '' - '' @ [CHR 0x22] @ str_int (r_points u2) @
            txt_points @ [CHR 0x0A] @
          medal_bronze @ '' '' @ r_name u3 @ '' - '' @ [CHR 0x22] @ str_int (r_points u3) @
            txt_points @ [CHR 0x0A] @
          ''...'' @ [CHR 0x0A] @
          ''<b>'' @ [CHR 0x09] @ str_nat p @ ''.'' @ r_name (?rd ! (p - 1)) @ '' - '' @
            [CHR 0x22] @ str_int (r_points (?rd ! (p - 1))) @ txt_points @ ''</b>''"
    using pos far rd
    by (simp add: display_player_rating_def Let_def get_medal_def)
  with rd me show ?thesis using get_medal_cases by blast
qed

text \<open>Six users with 100, 90, 80, 70, 60 and 50 points; the requester is the last.\<close>

theorem rating_beyond_fifth_witness:
  "user_position_of (get_player_ratings six_users) 106 0 = Some 6 \<and>
   display_player_rating six_users 106 =
     medal_gold @ '' ann - '' @ [CHR 0x22] @ ''100'' @ txt_points @ [CHR 0x0A] @
     medal_silver @ '' bob - '' @ [CHR 0x22] @ ''90'' @ txt_points @ [CHR 0x0A] @
     medal_bronze @ '' cid - '' @ [CHR 0x22] @ ''80'' @ txt_points @ [CHR 0x0A] @
     ''...'' @ [CHR 0x0A] @
     ''<b>'' @ [CHR 0x09] @ ''6.fay - '' @ [CHR 0x22] @ ''50'' @ txt_points @ ''</b>''"
proof -
  have pos: "user_position_of (get_player_ratings six_users) 106 0 = Some 6"
    by (simp add: six_users_ratings)
  from rating_beyond_fifth [OF pos] pos show ?thesis
    by (simp add: six_users_ratings str_examples)
qed


section \<open>A round from a source\<close>

text \<open>
  Claim C6. When the chosen source returns a dictionary of \<open>quantity\<close> words
  (\<open>quantity\<close> is 4 in \<open>word_generator\<close>), \<open>word_generator\<close> returns the first term
  as the word, its translation as the correct answer and its id, and the translations of
  the other \<open>quantity - 1\<close> entries, in their order, as the wrong answers; the term of
  the word is not among the terms of the other entries.
\<close>

theorem word_generator_round:
  assumes src: "select_source n st msg = Some (word_dict, st1)"
    and len: "length word_dict = quantity" and pos: "0 < quantity"
  shows "\<exists>wrd translation id_word others.
           word_dict = (wrd, (translation, id_word)) # others \<and>
           word_generator n st msg =
             Some (Inr ((wrd, translation, map (\<lambda>item. fst (snd item)) others, Some id_word),
                        st1)) \<and>
           length (map (\<lambda>item. fst (snd item)) others) = quantity - 1 \<and>
           wrd \<notin> set (map fst others)"
proof -
  from len pos obtain x others where wd: "word_dict = x # others"
    by (cases word_dict) auto
  obtain wrd translation id_word where x: "x = (wrd, (translation, id_word))"
    by (cases x) auto
  from select_source_distinct [OF src] wd x have "wrd \<notin> set (map fst others)" by simp
  moreover from src wd x have "word_generator n st msg =
      Some (Inr ((wrd, translation, map (\<lambda>item. fst (snd item)) others, Some id_word), st1))"
    by (simp add: word_generator_def)
  moreover from len wd have "length (map (\<lambda>item. fst (snd item)) others) = quantity - 1"
    by auto
  ultimately show ?thesis using wd x by blast
qed

lemma quiz_world_source:
  "select_source 1 quiz_world \<lparr>chat_id = 7, from_user_id = 100, m_text = ''go''\<rparr> =
     Some ([(''kot'', (''cat'', 1)), (''dom'', (''house'', 2)), (''les'', (''forest'', 3)),
            (''sad'', (''garden'', 4))],
           quiz_world\<lparr>rng := []\<rparr>)"
  by (simp add: select_source_def random_randint_0_2_def draw_def quiz_world_def
        get_random_words_for_user_def mastered_word_ids_def sql_not_in_def random_shuffle_def)

text \<open>In \<open>quiz_world\<close> the general pool returns four words.\<close>

theorem word_generator_round_witness:
  "word_generator 1 quiz_world \<lparr>chat_id = 7, from_user_id = 100, m_text = ''go''\<rparr> =
     Some (Inr ((''kot'', ''cat'', [''house'', ''forest'', ''garden''], Some 1),
                quiz_world\<lparr>rng := []\<rparr>))"
  using word_generator_round [OF quiz_world_source, of 4]
  by simp

section \<open>Topping up from a second source\<close>

lemma merge_world_pool:
  "get_random_words_for_user merge_world 100 4 False =
     ([(''kot'', (''cat'', 2)), (''dom'', (''house'', 3)), (''les'', (''forest'', 4))],
      merge_world)"
  by (simp add: get_random_words_for_user_def merge_world_def mastered_word_ids_def
        sql_not_in_def random_shuffle_def draw_def)

lemma merge_world_pool3:
  "get_random_words_for_user merge_world 100 3 False =
     ([(''kot'', (''cat'', 2)), (''dom'', (''house'', 3)), (''les'', (''forest'', 4))],
      merge_world)"
  by (simp add: get_random_words_for_user_def merge_world_def mastered_word_ids_def
        sql_not_in_def random_shuffle_def draw_def)

lemma merge_world_own:
  "get_random_words_for_user merge_world 100 4 True = ([(''kot'', (''kitty'', 1))], merge_world)"
  by (simp add: get_random_words_for_user_def merge_world_def mastered_word_ids_def
        sql_not_in_def random_shuffle_def draw_def)

lemma merge_world_csv_try:
  "csv_try merge_world q =
     (if q = 0
      then Selected [[''russian'', ''english''], [''kot'', ''tomcat'']] [] [] merge_world
      else Selected [[''russian'', ''english''], [''kot'', ''tomcat'']] [[''kot'', ''tomcat'']]
             [(''kot'', (''tomcat'', 2))] merge_world)"
  by (cases q) (simp_all add: csv_try_def merge_world_def random_sample_def draw_def
        search_word_def)

lemma merge_world_csv:
  "read_words_csv 1 merge_world 100 1 =
     Some ([(''kot'', (''tomcat'', 2))], merge_world\<lparr>csv_file := Some [[''russian'', ''english'']]\<rparr>)"
  by (simp add: merge_world_csv_try)

lemma merge_world_bd:
  "read_words_bd 2 merge_world 100 4 =
     Some ([(''kot'', (''tomcat'', 2)), (''dom'', (''house'', 3)), (''les'', (''forest'', 4))],
           merge_world\<lparr>csv_file := Some [[''russian'', ''english'']]\<rparr>)"
  using merge_world_csv
  by (simp add: numeral_2_eq_2 merge_world_pool dict_update_def)

lemma merge_world_bd3:
  "read_words_bd 1 merge_world 100 3 =
     Some ([(''kot'', (''cat'', 2)), (''dom'', (''house'', 3)), (''les'', (''forest'', 4))],
           merge_world)"
  by (simp add: merge_world_pool3)

lemma merge_world_csv4:
  "read_words_csv 2 merge_world 100 4 =
     Some ([(''kot'', (''cat'', 2)), (''dom'', (''house'', 3)), (''les'', (''forest'', 4))],
           merge_world\<lparr>csv_file := Some [[''russian'', ''english'']]\<rparr>)"
  using merge_world_bd3
  by (simp add: numeral_2_eq_2 merge_world_csv_try dict_update_def)

lemma merge_world_added_user:
  "read_words_bd_added_user 1 merge_world 100 =
     Some ([(''kot'', (''cat'', 2)), (''dom'', (''house'', 3)), (''les'', (''forest'', 4))],
           merge_world)"
  using merge_world_bd3
  by (simp add: read_words_bd_added_user_def merge_world_own dict_update_def)

text \<open>
  Claim C3, as stated: a term that the original result and the top-up result share keeps
  the translation and the id of the original entry. It fails in \<open>merge_world\<close>. The
  general pool has \<open>kot\<close> as \<open>(cat, 2)\<close>, the CSV top-up has it as \<open>(tomcat, 2)\<close>,
  and \<open>read_words_bd\<close> returns \<open>(tomcat, 2)\<close>. The user's own words have \<open>kot\<close> as
  \<open>(kitty, 1)\<close>, the top-up from the general pool has it as \<open>(cat, 2)\<close>, and
  \<open>read_words_bd_added_user\<close> returns \<open>(cat, 2)\<close>.
\<close>

theorem top_up_overwrites_counterexample:
  "dict_get (fst (get_random_words_for_user merge_world 100 4 False)) ''kot'' = Some (''cat'', 2) \<and>
   map_option fst (read_words_csv 1 merge_world 100 1) = Some [(''kot'', (''tomcat'', 2))] \<and>
   map_option fst (read_words_bd 2 merge_world 100 4) =
     Some [(''kot'', (''tomcat'', 2)), (''dom'', (''house'', 3)), (''les'', (''forest'', 4))] \<and>
   dict_get (fst (get_random_words_for_user merge_world 100 4 True)) ''kot'' = Some (''kitty'', 1) \<and>
   map_option fst (read_words_bd 1 merge_world 100 3) =
     Some [(''kot'', (''cat'', 2)), (''dom'', (''house'', 3)), (''les'', (''forest'', 4))] \<and>
   map_option fst (read_words_bd_added_user 1 merge_world 100) =
     Some [(''kot'', (''cat'', 2)), (''dom'', (''house'', 3)), (''les'', (''forest'', 4))]"
  unfolding merge_world_pool merge_world_own merge_world_csv merge_world_bd
    merge_world_bd3 merge_world_added_user
  by (simp add: dict_get_def)

text \<open>
  Claim C3, amended. When a source finds fewer words than requested and tops up from
  another source, the merge is \<open>dict.update\<close>: every entry of the top-up result is an
  entry of the final mapping, so a term present in both results ends with the translation
  and the id of the top-up entry; the terms of the original result keep their places at
  the front. This holds at the top-up of \<open>read_words_bd\<close>, of \<open>read_words_csv\<close> and of
  \<open>read_words_bd_added_user\<close>.
\<close>

theorem top_up_overwrites:
  "(length (fst (get_random_words_for_user st u q False)) < q \<and>
    read_words_bd (Suc n) st u q = Some (r, st') \<longrightarrow>
      (\<exists>csv_word.
         map_option fst (read_words_csv n (snd (get_random_words_for_user st u q False)) u
            (q - length (fst (get_random_words_for_user st u q False)))) = Some csv_word \<and>
         r = dict_update (fst (get_random_words_for_user st u q False)) csv_word \<and>
         (\<forall>k v. (k, v) \<in> set csv_word \<longrightarrow> dict_get r k = Some v) \<and>
         (\<exists>ks. map fst r = map fst (fst (get_random_words_for_user st u q False)) @ ks))) \<and>
   (csv_try st q = Selected ws sel d st1 \<and> length d < q \<and>
    read_words_csv (Suc n) st u q = Some (r, st') \<longrightarrow>
      (\<exists>result.
         map_option fst (read_words_bd n st1 u (q - length d)) = Some result \<and>
         r = dict_update d result \<and>
         (\<forall>k v. (k, v) \<in> set result \<longrightarrow> dict_get r k = Some v) \<and>
         (\<exists>ks. map fst r = map fst d @ ks))) \<and>
   (length (fst (get_random_words_for_user st u 4 True)) < 4 \<and>
    read_words_bd_added_user n st u = Some (r, st') \<longrightarrow>
      (\<exists>bd_word.
         map_option fst (read_words_bd n (snd (get_random_words_for_user st u 4 True)) u
            (4 - length (fst (get_random_words_for_user st u 4 True)))) = Some bd_word \<and>
         r = dict_update (fst (get_random_words_for_user st u 4 True)) bd_word \<and>
         (\<forall>k v. (k, v) \<in> set bd_word \<longrightarrow> dict_get r k = Some v) \<and>
         (\<exists>ks. map fst r = map fst (fst (get_random_words_for_user st u 4 True)) @ ks)))"
proof (intro conjI impI)
  let ?found = "get_random_words_for_user st u q False"
  assume a: "length (fst ?found) < q \<and> read_words_bd (Suc n) st u q = Some (r, st')"
  then obtain csv_word st2 where
    c: "read_words_csv n (snd ?found) u (q - length (fst ?found)) = Some (csv_word, st2)"
    and r: "r = dict_update (fst ?found) csv_word"
    by (auto simp: Let_def split: option.splits)
  from sources_distinct [of n "snd ?found" u "q - length (fst ?found)" csv_word st2] c
  have "distinct (map fst csv_word)" by simp
  then have "\<forall>k v. (k, v) \<in> set csv_word \<longrightarrow> dict_get r k = Some v"
    using r by (simp add: dict_get_def dict_update_later)
  with c r dict_update_keys_prefix [of "fst ?found" csv_word]
  show "\<exists>csv_word.
         map_option fst (read_words_csv n (snd ?found) u (q - length (fst ?found))) =
           Some csv_word \<and>
         r = dict_update (fst ?found) csv_word \<and>
         (\<forall>k v. (k, v) \<in> set csv_word \<longrightarrow> dict_get r k = Some v) \<and>
         (\<exists>ks. map fst r = map fst (fst ?found) @ ks)"
    by auto
next
  assume a: "csv_try st q = Selected ws sel d st1 \<and> length d < q \<and>
    read_words_csv (Suc n) st u q = Some (r, st')"
  then obtain result st2 where
    c: "read_words_bd n st1 u (q - length d) = Some (result, st2)"
    and r: "r = dict_update d result"
    by (auto split: option.splits)
  from sources_distinct [of n st1 u "q - length d" result st2] c
  have "distinct (map fst result)" by simp
  then have "\<forall>k v. (k, v) \<in> set result \<longrightarrow> dict_get r k = Some v"
    using r by (simp add: dict_get_def dict_update_later)
  with c r dict_update_keys_prefix [of d result]
  show "\<exists>result.
         map_option fst (read_words_bd n st1 u (q - length d)) = Some result \<and>
         r = dict_update d result \<and>
         (\<forall>k v. (k, v) \<in> set result \<longrightarrow> dict_get r k = Some v) \<and>
         (\<exists>ks. map fst r = map fst d @ ks)"
    by auto
next
  let ?found = "get_random_words_for_user st u 4 True"
  assume a: "length (fst ?found) < 4 \<and> read_words_bd_added_user n st u = Some (r, st')"
  then obtain bd_word st2 where
    c: "read_words_bd n (snd ?found) u (4 - length (fst ?found)) = Some (bd_word, st2)"
    and r: "r = dict_update (fst ?found) bd_word"
    by (auto simp: read_words_bd_added_user_def Let_def split: option.splits)
  from sources_distinct [of n "snd ?found" u "4 - length (fst ?found)" bd_word st2] c
  have "distinct (map fst bd_word)" by simp
  then have "\<forall>k v. (k, v) \<in> set bd_word \<longrightarrow> dict_get r k = Some v"
    using r by (simp add: dict_get_def dict_update_later)
  with c r dict_update_keys_prefix [of "fst ?found" bd_word]
  show "\<exists>bd_word.
         map_option fst (read_words_bd n (snd ?found) u (4 - length (fst ?found))) =
           Some bd_word \<and>
         r = dict_update (fst ?found) bd_word \<and>
         (\<forall>k v. (k, v) \<in> set bd_word \<longrightarrow> dict_get r k = Some v) \<and>
         (\<exists>ks. map fst r = map fst (fst ?found) @ ks)"
    by auto
qed


text \<open>
  The three top-ups in \<open>merge_world\<close>: the entry of \<open>kot\<close> in the result is the one
  of the top-up.
\<close>

theorem top_up_overwrites_witness:
  "map_option (\<lambda>res. dict_get (fst res) ''kot'') (read_words_bd 2 merge_world 100 4) =
     Some (Some (''tomcat'', 2)) \<and>
   map_option (\<lambda>res. dict_get (fst res) ''kot'') (read_words_csv 2 merge_world 100 4) =
     Some (Some (''cat'', 2)) \<and>
   map_option (\<lambda>res. dict_get (fst res) ''kot'') (read_words_bd_added_user 1 merge_world 100) =
     Some (Some (''cat'', 2))"
proof -
  let ?pool = "[(''kot'', (''cat'', 2::int)), (''dom'', (''house'', 3)), (''les'', (''forest'', 4))]"
  let ?r1 = "[(''kot'', (''tomcat'', 2::int)), (''dom'', (''house'', 3)), (''les'', (''forest'', 4))]"
  let ?s1 = "merge_world\<lparr>csv_file := Some [[''russian'', ''english'']]\<rparr>"
  let ?ws = "[[''russian'', ''english''], [''kot'', ''tomcat'']]"
  have bd: "read_words_bd (Suc 1) merge_world 100 4 = Some (?r1, ?s1)"
    using merge_world_bd by (simp only: Suc_1)
  have csv: "read_words_csv (Suc 1) merge_world 100 4 = Some (?pool, ?s1)"
    using merge_world_csv4 by (simp only: Suc_1)
  have tried: "csv_try merge_world 4 =
      Selected ?ws [[''kot'', ''tomcat'']] [(''kot'', (''tomcat'', 2))] merge_world"
    by (simp add: merge_world_csv_try)
  have top1: "map_option fst
      (read_words_csv 1 (snd (get_random_words_for_user merge_world 100 4 False)) 100
         (4 - length (fst (get_random_words_for_user merge_world 100 4 False)))) =
      Some [(''kot'', (''tomcat'', 2))]"
    by (simp add: merge_world_pool merge_world_csv_try)
  have top2: "map_option fst (read_words_bd 1 merge_world 100 (4 - length [(''kot'', (''tomcat'', 2::int))]))
      = Some ?pool"
    by (simp add: merge_world_pool3)
  have top3: "map_option fst
      (read_words_bd 1 (snd (get_random_words_for_user merge_world 100 4 True)) 100
         (4 - length (fst (get_random_words_for_user merge_world 100 4 True)))) = Some ?pool"
    by (simp add: merge_world_own merge_world_pool3)
  have len1: "length (fst (get_random_words_for_user merge_world 100 4 False)) < 4"
    by (simp add: merge_world_pool)
  from top_up_overwrites [of merge_world 100 4 1 ?r1 ?s1, THEN conjunct1, THEN mp,
      OF conjI [OF len1 bd]]
  obtain cw where cw: "map_option fst
      (read_words_csv 1 (snd (get_random_words_for_user merge_world 100 4 False)) 100
         (4 - length (fst (get_random_words_for_user merge_world 100 4 False)))) = Some cw"
    and all1: "\<forall>k v. (k, v) \<in> set cw \<longrightarrow> dict_get ?r1 k = Some v"
    by blast
  from cw [unfolded top1] have "cw = [(''kot'', (''tomcat'', 2))]" by simp
  with all1 have one: "dict_get ?r1 ''kot'' = Some (''tomcat'', 2)" by simp
  have len2: "length [(''kot'', (''tomcat'', 2::int))] < 4" by simp
  from top_up_overwrites [of merge_world 100 4 1 ?pool ?s1 ?ws "[[''kot'', ''tomcat'']]"
      "[(''kot'', (''tomcat'', 2))]" merge_world,
      THEN conjunct2, THEN conjunct1, THEN mp, OF conjI [OF tried conjI [OF len2 csv]]]
  obtain res where res: "map_option fst
      (read_words_bd 1 merge_world 100 (4 - length [(''kot'', (''tomcat'', 2::int))])) = Some res"
    and all2: "\<forall>k v. (k, v) \<in> set res \<longrightarrow> dict_get ?pool k = Some v"
    by blast
  from res [unfolded top2] have "res = ?pool" by simp
  with all2 have two: "dict_get ?pool ''kot'' = Some (''cat'', 2)" by simp
  have len3: "length (fst (get_random_words_for_user merge_world 100 4 True)) < 4"
    by (simp add: merge_world_own)
  from top_up_overwrites [of merge_world 100 4 1 ?pool merge_world,
      THEN conjunct2, THEN conjunct2, THEN mp, OF conjI [OF len3 merge_world_added_user]]
  obtain bw where bw: "map_option fst
      (read_words_bd 1 (snd (get_random_words_for_user merge_world 100 4 True)) 100
         (4 - length (fst (get_random_words_for_user merge_world 100 4 True)))) = Some bw"
    and all3: "\<forall>k v. (k, v) \<in> set bw \<longrightarrow> dict_get ?pool k = Some v"
    by blast
  from bw [unfolded top3] have "bw = ?pool" by simp
  with all3 have three: "dict_get ?pool ''kot'' = Some (''cat'', 2)" by simp
  from one two three show ?thesis
    unfolding merge_world_bd merge_world_csv4 merge_world_added_user by simp
qed


section \<open>The mutual top-up when both sources are exhausted\<close>

lemma get_random_words_none:
  assumes "filter (\<lambda>w. sql_not_in (w_id w) (mastered_word_ids st u) \<and>
             (if flag then w_user_id w = Some u else w_user_id w = None)) (tbl_word st) = []"
  shows "get_random_words_for_user st u q flag = ([], st)"
  using assms by (simp add: get_random_words_for_user_def random_shuffle_Nil)

lemma csv_try_exhausted:
  assumes "csv_file st = None \<or> (\<exists>ws. csv_file st = Some ws \<and> tl ws = [])"
  shows "csv_try st q = Raised [] st \<or> (\<exists>ws. csv_try st q = Selected ws [] [] st)"
  using assms by (auto simp: csv_try_def random_sample_def)

text \<open>
  When no shared word is eligible for the user and the CSV file is missing or holds at
  most its header, neither function returns for a positive quantity, whatever the fuel:
  each call finds nothing, asks the other one for the same quantity, and the state does
  not change.
\<close>

lemma exhausted_diverges:
  assumes pool: "filter (\<lambda>w. sql_not_in (w_id w) (mastered_word_ids st u) \<and>
                   (if False then w_user_id w = Some u else w_user_id w = None)) (tbl_word st) = []"
    and csv: "csv_file st = None \<or> (\<exists>ws. csv_file st = Some ws \<and> tl ws = [])"
  shows "0 < q \<Longrightarrow> read_words_csv n st u q = None \<and> read_words_bd n st u q = None"
proof (induction n arbitrary: q)
  case 0
  then show ?case by simp
next
  case (Suc n)
  from Suc.IH [OF Suc.prems]
  have ih: "read_words_csv n st u q = None" "read_words_bd n st u q = None"
    by simp_all
  have "read_words_bd (Suc n) st u q = None"
    using get_random_words_none [OF pool, of q] Suc.prems ih by simp
  moreover have "read_words_csv (Suc n) st u q = None"
    using csv_try_exhausted [OF csv, of q] Suc.prems ih by auto
  ultimately show ?case by simp
qed

text \<open>
  Claim C10. The claim is that the mutual top-up of \<open>read_words_csv\<close> and
  \<open>read_words_bd\<close> returns a mapping for every state of the CSV file and of the
  pool, both empty included. In \<open>exhausted_world\<close> (no word in the pool, a CSV file with
  its header only) neither function returns, for any fuel, user and positive quantity.
\<close>

theorem top_up_recursion_diverges:
  "read_words_csv n exhausted_world user_id (Suc q) = None \<and>
   read_words_bd n exhausted_world user_id (Suc q) = None"
  by (rule exhausted_diverges) (simp_all add: exhausted_world_def)

text \<open>
  Claim C1. The claim is that \<open>word_generator\<close> always returns a round, falling back
  to the built-in words on any failure. In \<open>exhausted_world\<close>, whatever the random
  generator chooses, the source that \<open>word_generator\<close> calls before its \<open>try\<close> never
  returns, so neither the \<open>try\<close> nor the fallback is reached.
\<close>

theorem word_generator_diverges:
  "word_generator n (exhausted_world\<lparr>rng := rs\<rparr>) msg = None"
proof -
  let ?st = "exhausted_world\<lparr>rng := snd (random_randint_0_2 rs)\<rparr>"
  let ?u = "from_user_id msg"
  have d: "read_words_csv n ?st ?u 4 = None \<and> read_words_bd n ?st ?u 4 = None"
    by (rule exhausted_diverges) (simp_all add: exhausted_world_def)
  have "get_random_words_for_user ?st ?u 4 True = ([], ?st)"
    by (rule get_random_words_none) (simp add: exhausted_world_def)
  with d have "read_words_bd_added_user n ?st ?u = None"
    by (simp add: read_words_bd_added_user_def)
  with d have "select_source n (exhausted_world\<lparr>rng := rs\<rparr>) msg = None"
    by (simp add: select_source_def Let_def)
  then show ?thesis by (simp add: word_generator_def)
qed

text \<open>
  Whenever the chosen source does return, \<open>word_generator\<close> returns a round: the
  fallback sample of 4 out of 20 pairs cannot fail.
\<close>

lemma fallback_loop_length:
  "distinct (map fst sel) \<Longrightarrow> fst ` set d \<inter> fst ` set sel = {} \<Longrightarrow> distinct (map fst d) \<Longrightarrow>
     length (fst (fallback_loop sel d st)) = length d + length sel"
proof (induction sel d st rule: fallback_loop.induct)
  case (1 words_dict st)
  then show ?case by simp
next
  case (2 wrd translation rest words_dict st)
  have k: "wrd \<notin> fst ` set words_dict" using 2(3) by auto
  then have len: "length (dict_setitem words_dict wrd translation) = Suc (length words_dict)"
    using dict_setitem_keys [of words_dict wrd translation]
    by (metis length_append_singleton length_map)
  have keys: "fst ` set (dict_setitem words_dict wrd translation) = insert wrd (fst ` set words_dict)"
    using dict_setitem_keys [of words_dict wrd translation] k
    by (metis (no_types, lifting) Un_insert_right append_Nil2 list.set(2) list.simps(15) set_append set_map)
  have "length (fst (fallback_loop rest (dict_setitem words_dict wrd translation)
           (case search_word st wrd None of
              None \<Rightarrow> snd (save_word st wrd translation None) | Some x \<Rightarrow> st))) =
        length (dict_setitem words_dict wrd translation) + length rest"
    using 2(1) [OF refl] 2(2,3,4) keys dict_setitem_distinct [of words_dict wrd translation]
    by auto
  with len show ?case by (simp add: Let_def)
qed


lemma sample_distinct:
  "distinct (map f pop) \<Longrightarrow> distinct (map f (fst (sample rs pop k)))"
proof (induction rs pop k rule: sample.induct)
  case (3 rs p ps k)
  let ?pop = "p # ps"
  let ?i = "fst (draw rs) mod length ?pop"
  let ?rest = "take ?i ?pop @ drop (Suc ?i) ?pop"
  have i: "?i < length ?pop" by simp
  have pop: "?pop = take ?i ?pop @ ?pop ! ?i # drop (Suc ?i) ?pop"
    using i by (rule id_take_nth_drop)
  from 3(2) have d: "distinct (map f (take ?i ?pop @ ?pop ! ?i # drop (Suc ?i) ?pop))"
    using pop by metis
  then have rest: "distinct (map f ?rest)" and out: "f (?pop ! ?i) \<notin> f ` set ?rest"
    by auto
  from 3(1) [OF refl rest] have "distinct (map f (fst (sample (snd (draw rs)) ?rest k)))" .
  moreover have "f (?pop ! ?i) \<notin> f ` set (fst (sample (snd (draw rs)) ?rest k))"
    using out sample_subset [of "snd (draw rs)" ?rest k] by blast
  ultimately show ?case by (simp add: Let_def del: take_Cons' drop_Suc_Cons nth_Cons')
qed simp_all

lemma fallback_words_keys: "distinct (map fst fallback_words)" "length fallback_words = 20"
  by (simp_all add: fallback_words_def)

lemma get_fallback_words_four:
  "\<exists>x xs st'. get_fallback_words st 4 = Inr (x # xs, st')"
proof -
  let ?sel = "fst (sample (rng st) fallback_words 4)"
  have len: "length ?sel = 4" by (rule sample_length) (simp add: fallback_words_keys)
  have "distinct (map fst ?sel)" by (rule sample_distinct) (rule fallback_words_keys)
  then have "length (fst (fallback_loop ?sel [] (st\<lparr>rng := snd (sample (rng st) fallback_words 4)\<rparr>))) = 4"
    using fallback_loop_length [of ?sel "[]"] len by simp
  then obtain x xs where
    "fst (fallback_loop ?sel [] (st\<lparr>rng := snd (sample (rng st) fallback_words 4)\<rparr>)) = x # xs"
    by (cases "fst (fallback_loop ?sel [] (st\<lparr>rng := snd (sample (rng st) fallback_words 4)\<rparr>))") auto
  then show ?thesis
    by (cases "fallback_loop ?sel [] (st\<lparr>rng := snd (sample (rng st) fallback_words 4)\<rparr>)")
       (auto simp: get_fallback_words_def random_sample_def fallback_words_keys)
qed

lemma word_generator_returns:
  assumes "select_source n st msg = Some (d, st1)"
  shows "\<exists>round st2. word_generator n st msg = Some (Inr (round, st2))"
proof (cases d)
  case Nil
  from get_fallback_words_four [of st1] obtain x xs st' where
    "get_fallback_words st1 4 = Inr (x # xs, st')" by blast
  with assms Nil show ?thesis
    by (cases x) (simp add: word_generator_def)
next
  case (Cons x xs)
  with assms show ?thesis
    by (cases x) (auto simp: word_generator_def)
qed


section \<open>Answers and the exposure counter\<close>

text \<open>No word source, and no round built from one, touches the table \<open>users_word\<close>.\<close>

lemma csv_rows_loop_users_word:
  "tbl_users_word (snd (snd (csv_rows_loop rows d st))) = tbl_users_word st"
  by (induction rows d st rule: csv_rows_loop.induct)
     (auto simp: save_word_def Let_def split: option.splits)

lemma csv_try_users_word:
  "csv_try st q = Raised d st1 \<Longrightarrow> tbl_users_word st1 = tbl_users_word st"
  "csv_try st q = Selected ws sel d st1 \<Longrightarrow> tbl_users_word st1 = tbl_users_word st"
proof -
  have loop: "\<And>rows s e d' s'. csv_rows_loop rows [] s = (e, d', s') \<Longrightarrow>
      tbl_users_word s' = tbl_users_word s"
    using csv_rows_loop_users_word by (metis snd_conv)
  show "csv_try st q = Raised d st1 \<Longrightarrow> tbl_users_word st1 = tbl_users_word st"
    by (auto simp: csv_try_def split: option.splits prod.splits sum.splits dest: loop)
  show "csv_try st q = Selected ws sel d st1 \<Longrightarrow> tbl_users_word st1 = tbl_users_word st"
    by (auto simp: csv_try_def split: option.splits prod.splits sum.splits dest: loop)
qed

lemma get_random_words_users_word:
  "tbl_users_word (snd (get_random_words_for_user st u q flag)) = tbl_users_word st"
  by (simp add: get_random_words_for_user_def Let_def)

lemma sources_users_word:
  "(read_words_csv n st u q = Some (d, st') \<longrightarrow> tbl_users_word st' = tbl_users_word st) \<and>
   (read_words_bd n st u q = Some (d, st') \<longrightarrow> tbl_users_word st' = tbl_users_word st)"
proof (induction n arbitrary: st u q d st')
  case 0
  then show ?case by simp
next
  case (Suc n)
  have csv: "tbl_users_word st' = tbl_users_word st"
    if r: "read_words_csv (Suc n) st u q = Some (d, st')"
  proof (cases "csv_try st q")
    case (Raised wd st1)
    with r obtain res where "read_words_bd n st1 u q = Some (res, st')"
      by (auto split: option.splits)
    with Suc.IH [of st1 u q res st'] csv_try_users_word(1) [OF Raised] show ?thesis by simp
  next
    case (Selected ws sel wd st1)
    show ?thesis
    proof (cases "length wd < q")
      case True
      with r Selected obtain res st2 where
        b: "read_words_bd n st1 u (q - length wd) = Some (res, st2)"
        and s: "st' = st2\<lparr>csv_file := Some (filter (\<lambda>wrd. wrd \<notin> set sel) ws)\<rparr>"
        by (auto split: option.splits)
      with Suc.IH [of st1 u "q - length wd" res st2] csv_try_users_word(2) [OF Selected]
      show ?thesis by simp
    next
      case False
      with r Selected csv_try_users_word(2) [OF Selected] show ?thesis by auto
    qed
  qed
  have bd: "tbl_users_word st' = tbl_users_word st"
    if r: "read_words_bd (Suc n) st u q = Some (d, st')"
  proof (cases "length (fst (get_random_words_for_user st u q False)) < q")
    case True
    with r obtain res where
      "read_words_csv n (snd (get_random_words_for_user st u q False)) u
         (q - length (fst (get_random_words_for_user st u q False))) = Some (res, st')"
      by (auto simp: Let_def split: option.splits)
    with Suc.IH [of "snd (get_random_words_for_user st u q False)" u
        "q - length (fst (get_random_words_for_user st u q False))" res st']
      get_random_words_users_word [of st u q False]
    show ?thesis by simp
  next
    case False
    with r get_random_words_users_word [of st u q False] show ?thesis
      by (auto simp: Let_def)
  qed
  from csv bd show ?case by blast
qed

lemma read_words_bd_added_user_users_word:
  assumes "read_words_bd_added_user n st u = Some (d, st')"
  shows "tbl_users_word st' = tbl_users_word st"
proof (cases "length (fst (get_random_words_for_user st u 4 True)) < 4")
  case True
  with assms obtain res where
    "read_words_bd n (snd (get_random_words_for_user st u 4 True)) u
       (4 - length (fst (get_random_words_for_user st u 4 True))) = Some (res, st')"
    by (auto simp: read_words_bd_added_user_def Let_def split: option.splits)
  with sources_users_word [of n "snd (get_random_words_for_user st u 4 True)" u
      "4 - length (fst (get_random_words_for_user st u 4 True))" res st']
    get_random_words_users_word [of st u 4 True]
  show ?thesis by simp
next
  case False
  with assms get_random_words_users_word [of st u 4 True] show ?thesis
    by (auto simp: read_words_bd_added_user_def Let_def)
qed

lemma select_source_users_word:
  assumes "select_source n st msg = Some (d, st')"
  shows "tbl_users_word st' = tbl_users_word st"
proof -
  let ?st0 = "st\<lparr>rng := snd (random_randint_0_2 (rng st))\<rparr>"
  from assms have "read_words_csv n ?st0 (from_user_id msg) 4 = Some (d, st') \<or>
      read_words_bd_added_user n ?st0 (from_user_id msg) = Some (d, st') \<or>
      read_words_bd n ?st0 (from_user_id msg) 4 = Some (d, st')"
    by (auto simp: select_source_def Let_def split: if_splits)
  with sources_users_word [of n ?st0 "from_user_id msg" 4 d st']
    read_words_bd_added_user_users_word [of n ?st0 "from_user_id msg" d st']
  show ?thesis by auto
qed

lemma fallback_loop_users_word:
  "tbl_users_word (snd (fallback_loop sel d st)) = tbl_users_word st"
  by (induction sel d st rule: fallback_loop.induct)
     (auto simp: save_word_def Let_def split: option.splits)

lemma get_fallback_words_users_word:
  assumes "get_fallback_words st q = Inr (fb, st')"
  shows "tbl_users_word st' = tbl_users_word st"
proof -
  obtain res rs where rs: "random_sample (rng st) fallback_words q = (res, rs)"
    by (cases "random_sample (rng st) fallback_words q") auto
  with assms obtain sel where "res = Inr sel"
    and "fallback_loop sel [] (st\<lparr>rng := rs\<rparr>) = (fb, st')"
    by (cases res) (auto simp: get_fallback_words_def)
  then have "st' = snd (fallback_loop sel [] (st\<lparr>rng := rs\<rparr>))" by simp
  then show ?thesis by (simp add: fallback_loop_users_word)
qed

lemma word_generator_users_word:
  assumes "word_generator n st msg = Some (Inr (round, st'))"
  shows "tbl_users_word st' = tbl_users_word st"
proof -
  from assms obtain d st1 where src: "select_source n st msg = Some (d, st1)"
    by (auto simp: word_generator_def split: option.splits)
  note s1 = select_source_users_word [OF src]
  show ?thesis
  proof (cases d)
    case (Cons x xs)
    with assms src s1 show ?thesis
      by (cases x) (auto simp: word_generator_def)
  next
    case Nil
    with assms src obtain fb where fb: "get_fallback_words st1 4 = Inr (fb, st')"
      by (auto simp: word_generator_def split: sum.splits list.splits)
    from get_fallback_words_users_word [OF this] s1 show ?thesis by simp
  qed
qed

lemma start_game_users_word:
  assumes "start_game n ext st msg = Some (Inr st')"
  shows "tbl_users_word st' = tbl_users_word st"
proof -
  from assms obtain round st1 where wg: "word_generator n st msg = Some (Inr (round, st1))"
    by (auto simp: start_game_def split: option.splits sum.splits)
  obtain wrd ct tb idw where round: "round = (wrd, ct, tb, idw)" by (cases round) auto
  from assms wg round have "tbl_users_word st' = tbl_users_word st1"
    by (auto simp: start_game_def Let_def translation_buttons_def send_message_def
          register_next_step_handler_def)
  with word_generator_users_word [OF wg] show ?thesis by simp
qed

text \<open>
  A reply that is not the correct translation leaves every exposure counter as it was,
  whichever branch of \<open>check_answer\<close> it takes.
\<close>

lemma other_answer_keeps_users_word:
  assumes "m_text msg \<noteq> correct_translation"
    and "check_answer n ext st msg id_word correct_translation = Some (Inr st')"
  shows "tbl_users_word st' = tbl_users_word st"
proof -
  from assms have
    "st' = send_message (send_message st (chat_id msg)
             (display_player_rating st (from_user_id msg)) None (Some ''HTML''))
             (chat_id msg) txt_continue (Some (start_button ext)) None \<or>
     st' = add_new_word ext st msg \<or> st' = dell_word_user ext st msg \<or>
     start_game n ext
       (update_points (send_message st (chat_id msg) txt_wrong None None) (from_user_id msg) 3 False)
       msg = Some (Inr st')"
    by (auto simp: check_answer_def Let_def split: if_splits)
  then show ?thesis
    by (auto simp: send_message_def add_new_word_def dell_word_user_def universal_buttons_def
          register_next_step_handler_def update_points_def Let_def
          dest!: start_game_users_word)
qed


lemma quiz_world_start:
  "start_game 1 ext0 quiz_world \<lparr>chat_id = 7, from_user_id = 100, m_text = ''go''\<rparr> =
     Some (Inr shown_world)"
proof -
  have "word_generator 1 quiz_world \<lparr>chat_id = 7, from_user_id = 100, m_text = ''go''\<rparr> =
     Some (Inr ((''kot'', ''cat'', [''house'', ''forest'', ''garden''], Some 1),
                quiz_world\<lparr>rng := []\<rparr>))"
    using quiz_world_source by (simp add: word_generator_def)
  then show ?thesis
    by (simp add: start_game_def translation_buttons_def random_shuffle_def draw_def
          send_message_def register_next_step_handler_def ext0_def shown_world_def
          quiz_world_def)
qed

text \<open>
  Claim C4. The claim is that \<open>times_shown\<close> counts every presentation of a word to a
  user, whether the answer is right or wrong. In \<open>quiz_world\<close> the first round shows
  the word 1 (\<open>kot\<close>). After the wrong reply \<open>dog\<close> the user has lost 3 points and
  \<open>users_word\<close> is still empty: the presentation was not counted. Only the right
  reply \<open>cat\<close> creates the row with the count 1.
\<close>

theorem wrong_answer_not_counted:
  "start_game 1 ext0 quiz_world \<lparr>chat_id = 7, from_user_id = 100, m_text = ''go''\<rparr> =
     Some (Inr shown_world) \<and>
   next_step shown_world = [(7, Check_answer (Some 1) ''cat'')] \<and>
   map_option (map_sum id tbl_users_word)
     (check_answer 2 ext0 shown_world \<lparr>chat_id = 7, from_user_id = 100, m_text = ''dog''\<rparr>
        (Some 1) ''cat'') = Some (Inr []) \<and>
   map_option (map_sum id (map u_points \<circ> tbl_users))
     (check_answer 2 ext0 shown_world \<lparr>chat_id = 7, from_user_id = 100, m_text = ''dog''\<rparr>
        (Some 1) ''cat'') = Some (Inr [- 3]) \<and>
   map_option (map_sum id tbl_users_word)
     (check_answer 2 ext0 shown_world \<lparr>chat_id = 7, from_user_id = 100, m_text = ''cat''\<rparr>
        (Some 1) ''cat'') =
     Some (Inr [\<lparr>uw_id = 1, uw_user_id = 1, uw_word_id = Some 1, uw_times_shown = 1\<rparr>])"
proof -
  have wrong: "\<exists>st'. check_answer 2 ext0 shown_world
      \<lparr>chat_id = 7, from_user_id = 100, m_text = ''dog''\<rparr> (Some 1) ''cat'' = Some (Inr st') \<and>
      tbl_users_word st' = [] \<and> map u_points (tbl_users st') = [- 3]"
    by (simp add: check_answer_def Let_def ext0_def numeral_2_eq_2 start_game_def word_generator_def
          select_source_def random_randint_0_2_def draw_def shown_world_def quiz_world_def
          send_message_def update_points_def csv_try_def get_random_words_for_user_def
          mastered_word_ids_def sql_not_in_def random_shuffle_def dict_update_def
          translation_buttons_def register_next_step_handler_def)
  have right: "\<exists>st'. check_answer 2 ext0 shown_world
      \<lparr>chat_id = 7, from_user_id = 100, m_text = ''cat''\<rparr> (Some 1) ''cat'' = Some (Inr st') \<and>
      tbl_users_word st' =
        [\<lparr>uw_id = 1, uw_user_id = 1, uw_word_id = Some 1, uw_times_shown = 1\<rparr>]"
    by (simp add: check_answer_def Let_def ext0_def numeral_2_eq_2 start_game_def word_generator_def
          select_source_def random_randint_0_2_def draw_def shown_world_def quiz_world_def
          send_message_def update_points_def update_times_shown_def csv_try_def
          get_random_words_for_user_def mastered_word_ids_def sql_not_in_def random_shuffle_def
          dict_update_def translation_buttons_def register_next_step_handler_def)
  from wrong right quiz_world_start show ?thesis
    by (auto simp: shown_world_def)
qed

section \<open>Adding and deleting the user's own words\<close>

text \<open>Identifiers given out by the sequence of \<open>word\<close> are positive, and stay so.\<close>

lemma save_word_ids_positive:
  assumes "\<forall>w \<in> set (tbl_word st). 0 < w_id w" and "0 \<le> word_seq st"
  shows "(\<forall>w \<in> set (tbl_word (snd (save_word st wrd translation user_id))). 0 < w_id w) \<and>
         0 \<le> word_seq (snd (save_word st wrd translation user_id)) \<and>
         0 < fst (save_word st wrd translation user_id)"
  using assms by (auto simp: save_word_def Let_def)

text \<open>
  Claim C9. Adding, as \<open>word, translation\<close>, a word that the user's store already has
  sends the message that the word already exists and leaves the table \<open>word\<close> as it
  was (identifiers of \<open>word\<close> are never 0, as \<open>SERIAL\<close> gives them). Deleting a word that
  the user's store does not have returns \<open>False\<close> from \<open>delete_word\<close>, changes
  nothing, and sends the message that the word could not be deleted; no exception is
  raised.
\<close>

theorem duplicate_and_missing_word:
  "((\<forall>w \<in> set (tbl_word st). w_id w \<noteq> 0) \<and>
    str_split (CHR '','') (str_lower ext (m_text msg)) = [t0, t1] \<and>
    str_strip ext t0 \<noteq> str_lower ext (BTN_Back ext) \<and>
    (\<exists>w \<in> set (tbl_word st). w_russian_words w = str_strip ext t0 \<and> w_user_id w = Some user_id)
    \<longrightarrow>
      (\<exists>st'. save_new_word n ext st msg user_id = Some (Inr st') \<and>
             tbl_word st' = tbl_word st \<and>
             sent st' = sent st @
               [\<lparr>sm_chat_id = chat_id msg, sm_text = txt_word @ str_strip ext t0 @ txt_exists,
                 sm_reply_markup = None, sm_parse_mode = None\<rparr>])) \<and>
   (str_strip ext (str_lower ext (m_text msg)) = txt \<and> txt \<noteq> str_lower ext (BTN_Back ext) \<and>
    \<not> (\<exists>w \<in> set (tbl_word st). w_russian_words w = txt \<and> w_user_id w = Some user_id)
    \<longrightarrow>
      delete_word st txt user_id = (False, st) \<and>
      (\<exists>st'. delete_user_word n ext st msg user_id = Some (Inr st') \<and>
             tbl_word st' = tbl_word st \<and>
             sent st' = sent st @
               [\<lparr>sm_chat_id = chat_id msg,
                 sm_text = txt_word_bold @ str_capitalize ext txt @ txt_not_deleted,
                 sm_reply_markup = Some (start_button ext), sm_parse_mode = Some ''HTML''\<rparr>]))"
proof (intro conjI impI)
  assume a: "(\<forall>w \<in> set (tbl_word st). w_id w \<noteq> 0) \<and>
    str_split (CHR '','') (str_lower ext (m_text msg)) = [t0, t1] \<and>
    str_strip ext t0 \<noteq> str_lower ext (BTN_Back ext) \<and>
    (\<exists>w \<in> set (tbl_word st). w_russian_words w = str_strip ext t0 \<and> w_user_id w = Some user_id)"
  let ?hits = "filter (\<lambda>w. w_russian_words w = str_strip ext t0 \<and> w_user_id w = Some user_id)
                 (tbl_word st)"
  from a have "?hits \<noteq> []" by (auto simp: filter_empty_conv)
  then obtain w ws where hits: "?hits = w # ws" by (cases ?hits) auto
  then have "w \<in> set ?hits" by simp
  then have "w \<in> set (tbl_word st)" by simp
  with a have "w_id w \<noteq> 0" by blast
  with hits have sw: "search_word st (str_strip ext t0) (Some user_id) = Some (w_id w)"
      "w_id w \<noteq> 0"
    by (simp_all add: search_word_def)
  with a have "save_new_word n ext st msg user_id =
      Some (Inr (send_message st (chat_id msg) (txt_word @ str_strip ext t0 @ txt_exists)
                   None None))"
    by (simp add: save_new_word_def)
  then show "\<exists>st'. save_new_word n ext st msg user_id = Some (Inr st') \<and>
             tbl_word st' = tbl_word st \<and>
             sent st' = sent st @
               [\<lparr>sm_chat_id = chat_id msg, sm_text = txt_word @ str_strip ext t0 @ txt_exists,
                 sm_reply_markup = None, sm_parse_mode = None\<rparr>]"
    by (simp add: send_message_def)
next
  assume b: "str_strip ext (str_lower ext (m_text msg)) = txt \<and>
    txt \<noteq> str_lower ext (BTN_Back ext) \<and>
    \<not> (\<exists>w \<in> set (tbl_word st). w_russian_words w = txt \<and> w_user_id w = Some user_id)"
  then have none:
    "filter (\<lambda>w. w_russian_words w = txt \<and> w_user_id w = Some user_id) (tbl_word st) = []"
    by (auto simp: filter_empty_conv)
  have keep:
    "filter (\<lambda>w. \<not> (w_russian_words w = txt \<and> w_user_id w = Some user_id)) (tbl_word st)
       = tbl_word st"
    using b by (auto simp: filter_id_conv)
  show dw: "delete_word st txt user_id = (False, st)"
    unfolding delete_word_def Let_def none keep by simp
  with b have "delete_user_word n ext st msg user_id =
      Some (Inr (send_message st (chat_id msg)
                   (txt_word_bold @ str_capitalize ext txt @ txt_not_deleted)
                   (Some (start_button ext)) (Some ''HTML'')))"
    by (simp add: delete_user_word_def Let_def)
  then show "\<exists>st'. delete_user_word n ext st msg user_id = Some (Inr st') \<and>
             tbl_word st' = tbl_word st \<and>
             sent st' = sent st @
               [\<lparr>sm_chat_id = chat_id msg,
                 sm_text = txt_word_bold @ str_capitalize ext txt @ txt_not_deleted,
                 sm_reply_markup = Some (start_button ext), sm_parse_mode = Some ''HTML''\<rparr>]"
    by (simp add: send_message_def)
qed

text \<open>
  In \<open>own_world\<close> the user 100 owns \<open>kot\<close>: adding \<open>kot,cat\<close> again is answered by the
  message and adds no row; deleting \<open>dom\<close>, which the user does not own, fails with the
  message.
\<close>

theorem duplicate_and_missing_word_witness:
  "map_option (map_sum id (\<lambda>s. (tbl_word s, map sm_text (sent s))))
     (save_new_word 1 ext0 own_world \<lparr>chat_id = 7, from_user_id = 100, m_text = ''kot,cat''\<rparr> 100)
     = Some (Inr (tbl_word own_world, [txt_word @ ''kot'' @ txt_exists])) \<and>
   delete_word own_world ''dom'' 100 = (False, own_world) \<and>
   map_option (map_sum id (\<lambda>s. (tbl_word s, map sm_text (sent s))))
     (delete_user_word 1 ext0 own_world \<lparr>chat_id = 7, from_user_id = 100, m_text = ''dom''\<rparr> 100)
     = Some (Inr (tbl_word own_world, [txt_word_bold @ ''dom'' @ txt_not_deleted]))"
proof -
  let ?add = "\<lparr>chat_id = 7, from_user_id = 100, m_text = ''kot,cat''\<rparr>"
  let ?del = "\<lparr>chat_id = 7, from_user_id = 100, m_text = ''dom''\<rparr>"
  have pa: "(\<forall>w \<in> set (tbl_word own_world). w_id w \<noteq> 0) \<and>
    str_split (CHR '','') (str_lower ext0 (m_text ?add)) = [''kot'', ''cat''] \<and>
    str_strip ext0 ''kot'' \<noteq> str_lower ext0 (BTN_Back ext0) \<and>
    (\<exists>w \<in> set (tbl_word own_world).
        w_russian_words w = str_strip ext0 ''kot'' \<and> w_user_id w = Some 100)"
    by (simp add: own_world_def ext0_def)
  have pd: "str_strip ext0 (str_lower ext0 (m_text ?del)) = ''dom'' \<and>
    ''dom'' \<noteq> str_lower ext0 (BTN_Back ext0) \<and>
    \<not> (\<exists>w \<in> set (tbl_word own_world). w_russian_words w = ''dom'' \<and> w_user_id w = Some 100)"
    by (simp add: own_world_def ext0_def)
  from duplicate_and_missing_word [of own_world ext0 ?add "''kot''" "''cat''" 100 1,
      THEN conjunct1, THEN mp, OF pa]
  obtain sa where sa: "save_new_word 1 ext0 own_world ?add 100 = Some (Inr sa)"
    "tbl_word sa = tbl_word own_world"
    "sent sa = sent own_world @
       [\<lparr>sm_chat_id = chat_id ?add, sm_text = txt_word @ str_strip ext0 ''kot'' @ txt_exists,
         sm_reply_markup = None, sm_parse_mode = None\<rparr>]"
    by blast
  from duplicate_and_missing_word [of own_world ext0 ?del _ _ 100 1 "''dom''",
      THEN conjunct2, THEN mp, OF pd]
  obtain sd where dw: "delete_word own_world ''dom'' 100 = (False, own_world)"
    and sd: "delete_user_word 1 ext0 own_world ?del 100 = Some (Inr sd)"
    "tbl_word sd = tbl_word own_world"
    "sent sd = sent own_world @
       [\<lparr>sm_chat_id = chat_id ?del,
         sm_text = txt_word_bold @ str_capitalize ext0 ''dom'' @ txt_not_deleted,
         sm_reply_markup = Some (start_button ext0), sm_parse_mode = Some ''HTML''\<rparr>]"
    by blast
  have "sent own_world = []" by (simp add: own_world_def)
  with sa sd dw show ?thesis by (simp add: ext0_def)
qed


end
